theory Spec2Isabelle
  imports Complex_Main
begin

section \<open>Shared domain types\<close>

text \<open>
  Identifiers are branded strings in the source (\<^verbatim>\<open>string & Unique\<close>); a timestamp is
  the millisecond count of \<^verbatim>\<open>Date.now()\<close>.
\<close>

type_synonym Pubkey = string
type_synonym WalletId = string
type_synonym AccountId = string
type_synonym UserId = string
type_synonym Username = string
type_synonym PaymentHash = string
type_synonym IntraLedgerHash = string
type_synonym Date = int

datatype WalletCurrency = Btc | Usd

datatype SettlementMethod = IntraLedger | Lightning

datatype PaymentInitiationMethod = InitiatedIntraLedger | InitiatedLightning

text \<open>
  A JavaScript \<^verbatim>\<open>number\<close>. The code under study only tests such a value for
  truthiness or hands it to a validator, so a finite double is kept as the rational it
  denotes (\<^verbatim>\<open>-0\<close> is \<open>Finite 0\<close>).
\<close>

datatype number = NaN | PlusInfinity | MinusInfinity | Finite rat

fun truthy_number :: "number \<Rightarrow> bool" where
  "truthy_number NaN = False"
| "truthy_number PlusInfinity = True"
| "truthy_number MinusInfinity = True"
| "truthy_number (Finite r) = (r \<noteq> 0)"

text \<open>\<^verbatim>\<open>!!x\<close> for an optional number, an optional bigint and an optional string.\<close>

definition truthy_opt_number :: "number option \<Rightarrow> bool" where
  "truthy_opt_number x = (case x of None \<Rightarrow> False | Some n \<Rightarrow> truthy_number n)"

definition truthy_opt_bigint :: "int option \<Rightarrow> bool" where
  "truthy_opt_bigint x = (case x of None \<Rightarrow> False | Some n \<Rightarrow> n \<noteq> 0)"

definition truthy_opt_string :: "string option \<Rightarrow> bool" where
  "truthy_opt_string x = (case x of None \<Rightarrow> False | Some s \<Rightarrow> s \<noteq> [])"

text \<open>\<^verbatim>\<open>PaymentAmount<T> = { amount: bigint, currency: T }\<close>.\<close>

record PaymentAmount =
  amount :: int
  currency :: WalletCurrency

text \<open>
  Error values. Every class the two modules construct has its own constructor; errors
  made by collaborators (validators, the dealer price service, the fee calculator) are
  whatever those collaborators return.
\<close>

datatype error =
    ValidationError string
  | SelfPaymentError
  | InvalidLightningPaymentFlowBuilderStateError string
  | InvalidLightningPaymentFlowStateError
  | DealerPriceServiceError string
  | LightningServiceError string
  | IntraledgerLimitsExceededError string
  | WithdrawalLimitsExceededError string
  | TwoFALimitsExceededError

text \<open>
  A \<^verbatim>\<open>PriceRatio\<close> object as its callers see it. The limits checker awaits
  \<^verbatim>\<open>convertFromBtc\<close> and tests the result with \<^verbatim>\<open>instanceof Error\<close>, so that method
  may hand back an error; the builder uses the other two results as amounts.
\<close>

record PriceRatio =
  convertFromBtc :: "PaymentAmount \<Rightarrow> error + PaymentAmount"
  convertFromUsd :: "PaymentAmount \<Rightarrow> PaymentAmount"
  convertFromBtcToCeil :: "PaymentAmount \<Rightarrow> PaymentAmount"

section \<open>Limits checker (new-limits-checker.ts)\<close>

record IAccountLimits =
  intraLedgerLimit :: number
  withdrawalLimit :: number

record TwoFALimits =
  threshold :: number

record WalletVolume =
  outgoingBaseAmount :: PaymentAmount

record NewLimiterCheckInputs =
  amount :: PaymentAmount
  walletVolume :: WalletVolume

text \<open>
  What the checker imports from \<^verbatim>\<open>@domain/shared\<close> and the language runtime:
  \<^verbatim>\<open>paymentAmountFromNumber\<close> and the number-to-text conversion of a template literal.
  Both are parameters. The call to \<^verbatim>\<open>addAttributesToCurrentSpan\<close> only writes to the
  trace span and returns nothing the checker reads; it has no counterpart here.
\<close>

record LimitsEnv =
  paymentAmountFromNumber :: "number \<Rightarrow> WalletCurrency \<Rightarrow> error + PaymentAmount"
  numberToString :: "number \<Rightarrow> string"

text \<open>The first statement of each check: the outgoing volume as a USD amount.\<close>

definition volumeInUsdAmount :: "PriceRatio \<Rightarrow> WalletVolume \<Rightarrow> error + PaymentAmount" where
  "volumeInUsdAmount priceRatio wv =
     (if PaymentAmount.currency (outgoingBaseAmount wv) = Btc
      then convertFromBtc priceRatio (outgoingBaseAmount wv)
      else Inr (outgoingBaseAmount wv))"

definition checkIntraledger ::
  "LimitsEnv \<Rightarrow> IAccountLimits \<Rightarrow> PriceRatio \<Rightarrow> NewLimiterCheckInputs \<Rightarrow> error + bool" where
  "checkIntraledger env accountLimits priceRatio inp =
     (case volumeInUsdAmount priceRatio (walletVolume inp) of
        Inl e \<Rightarrow> Inl e
      | Inr vol \<Rightarrow>
         (case paymentAmountFromNumber env (intraLedgerLimit accountLimits) Usd of
            Inl e \<Rightarrow> Inl e
          | Inr limit \<Rightarrow>
             (let remainingLimit = PaymentAmount.amount limit - PaymentAmount.amount vol
              in if remainingLimit < PaymentAmount.amount (NewLimiterCheckInputs.amount inp)
                 then Inl (IntraledgerLimitsExceededError
                        (''Cannot transfer more than ''
                          @ numberToString env (intraLedgerLimit accountLimits)
                          @ '' cents in 24 hours''))
                 else Inr True)))"

definition checkWithdrawal ::
  "LimitsEnv \<Rightarrow> IAccountLimits \<Rightarrow> PriceRatio \<Rightarrow> NewLimiterCheckInputs \<Rightarrow> error + bool" where
  "checkWithdrawal env accountLimits priceRatio inp =
     (case volumeInUsdAmount priceRatio (walletVolume inp) of
        Inl e \<Rightarrow> Inl e
      | Inr vol \<Rightarrow>
         (case paymentAmountFromNumber env (withdrawalLimit accountLimits) Usd of
            Inl e \<Rightarrow> Inl e
          | Inr limit \<Rightarrow>
             (let remainingLimit = PaymentAmount.amount limit - PaymentAmount.amount vol
              in if remainingLimit < PaymentAmount.amount (NewLimiterCheckInputs.amount inp)
                 then Inl (WithdrawalLimitsExceededError
                        (''Cannot transfer more than ''
                          @ numberToString env (withdrawalLimit accountLimits)
                          @ '' cents in 24 hours''))
                 else Inr True)))"

definition checkTwoFA ::
  "LimitsEnv \<Rightarrow> TwoFALimits \<Rightarrow> PriceRatio \<Rightarrow> NewLimiterCheckInputs \<Rightarrow> error + bool" where
  "checkTwoFA env twoFALimits priceRatio inp =
     (case volumeInUsdAmount priceRatio (walletVolume inp) of
        Inl e \<Rightarrow> Inl e
      | Inr vol \<Rightarrow>
         (case paymentAmountFromNumber env (threshold twoFALimits) Usd of
            Inl e \<Rightarrow> Inl e
          | Inr limit \<Rightarrow>
             (let remainingLimit = PaymentAmount.amount limit - PaymentAmount.amount vol
              in if remainingLimit < PaymentAmount.amount (NewLimiterCheckInputs.amount inp)
                 then Inl TwoFALimitsExceededError
                 else Inr True)))"

section \<open>Payment flow builder (payment-flow-builder.ts): data\<close>

text \<open>
  The builder's type declarations are not part of the sources at hand; the records below
  hold exactly the fields that the object literals and spreads of the module read and
  write. A field that a stage may leave \<^verbatim>\<open>undefined\<close> is an \<open>option\<close>. Where two records
  have a field of the same name, the record's name qualifies it.
\<close>

datatype RawRoute = RawRoute string

record LnInvoice =
  destination :: "Pubkey option"
  paymentHash :: PaymentHash
  paymentAmount :: "PaymentAmount option"
  description :: string

record WalletDescriptor =
  id' :: WalletId
  currency :: WalletCurrency
  accountId :: AccountId

text \<open>The argument of \<^verbatim>\<open>withRecipientWallet\<close>: a wallet descriptor and four more fields.\<close>

record RecipientWalletArgs = WalletDescriptor +
  userId :: UserId
  pubkey :: "Pubkey option"
  usdPaymentAmount :: "PaymentAmount option"
  username :: "Username option"

text \<open>
  A rate source of the dealer price service; its two lookups are awaited, and a pending
  lookup is represented by the value it resolves to.
\<close>

record RateSource =
  usdFromBtc :: "PaymentAmount \<Rightarrow> error + PaymentAmount"
  btcFromUsd :: "PaymentAmount \<Rightarrow> error + PaymentAmount"

record WithConversionArgs =
  hedgeBuyUsd :: RateSource
  hedgeSellUsd :: RateSource
  mid :: RateSource

text \<open>\<^verbatim>\<open>{ btc, usd }\<close>: the fee pair of \<^verbatim>\<open>intraLedgerFees()\<close> and the argument of \<^verbatim>\<open>PriceRatio\<close>.\<close>

record AmountPair =
  btc :: PaymentAmount
  usd :: PaymentAmount

record LnFees =
  intraLedgerFees :: AmountPair
  maxProtocolAndBankFee :: "PaymentAmount \<Rightarrow> PaymentAmount"
  feeFromRawRoute :: "RawRoute \<Rightarrow> error + PaymentAmount"

text \<open>
  Everything the builder imports from modules that are not at hand, as parameters:
  the fee calculator, the \<^verbatim>\<open>PriceRatio\<close> constructor, the two amount validators, the
  final-hop parser, the hash that \<^verbatim>\<open>generateIntraLedgerHash()\<close> returns at this call and
  the reading of the clock.
\<close>

record BuilderEnv =
  LnFees :: LnFees
  PriceRatio :: "AmountPair \<Rightarrow> error + PriceRatio"
  checkedToBtcPaymentAmount :: "number \<Rightarrow> error + PaymentAmount"
  checkedToUsdPaymentAmount :: "number \<Rightarrow> error + PaymentAmount"
  parseFinalHopsFromInvoice :: "LnInvoice \<Rightarrow> Pubkey list"
  generateIntraLedgerHash :: IntraLedgerHash
  now :: Date

text \<open>The object handed to \<^verbatim>\<open>PaymentFlow\<close> by \<^verbatim>\<open>paymentFromState\<close>.\<close>

record PaymentFlow =
  paymentHash :: "PaymentHash option"
  intraLedgerHash :: "IntraLedgerHash option"
  senderWalletId :: WalletId
  senderWalletCurrency :: WalletCurrency
  senderAccountId :: AccountId
  recipientWalletId :: "WalletId option"
  recipientWalletCurrency :: "WalletCurrency option"
  recipientAccountId :: "AccountId option"
  recipientPubkey :: "Pubkey option"
  recipientUsername :: "Username option"
  recipientUserId :: "UserId option"
  descriptionFromInvoice :: string
  skipProbeForDestination :: bool
  btcPaymentAmount :: PaymentAmount
  usdPaymentAmount :: PaymentAmount
  inputAmount :: "int option"
  createdAt :: Date
  paymentSentAndPending :: bool
  settlementMethod :: SettlementMethod
  paymentInitiationMethod :: PaymentInitiationMethod
  btcProtocolAndBankFee :: PaymentAmount
  usdProtocolAndBankFee :: PaymentAmount
  outgoingNodePubkey :: "Pubkey option"
  cachedRoute :: "RawRoute option"

text \<open>
  The state behind the promise of the \<^verbatim>\<open>WithConversion\<close> stage: both amounts and both
  fees are known, and the creation time is set.
\<close>

record LPFBWithConversionState =
  localNodeIds :: "Pubkey list"
  flaggedPubkeys :: "Pubkey list"
  settlementMethod :: SettlementMethod
  btcProtocolAndBankFee :: PaymentAmount
  usdProtocolAndBankFee :: PaymentAmount
  paymentInitiationMethod :: PaymentInitiationMethod
  paymentHash :: "PaymentHash option"
  intraLedgerHash :: "IntraLedgerHash option"
  btcPaymentAmount :: PaymentAmount
  inputAmount :: "int option"
  uncheckedAmount :: "number option"
  descriptionFromInvoice :: string
  skipProbeForDestination :: bool
  senderWalletId :: WalletId
  senderWalletCurrency :: WalletCurrency
  senderAccountId :: AccountId
  usdPaymentAmount :: PaymentAmount
  recipientWalletId :: "WalletId option"
  recipientWalletCurrency :: "WalletCurrency option"
  recipientPubkey :: "Pubkey option"
  recipientAccountId :: "AccountId option"
  recipientUsername :: "Username option"
  recipientUserId :: "UserId option"
  createdAt :: Date

record LPFBWithRouteState = LPFBWithConversionState +
  outgoingNodePubkey :: "Pubkey option"
  checkedRoute :: "RawRoute option"

text \<open>The result of \<^verbatim>\<open>settlementMethodFromDestination\<close>.\<close>

record SettlementAndFees =
  settlementMethod :: SettlementMethod
  btcProtocolAndBankFee :: "PaymentAmount option"
  usdProtocolAndBankFee :: "PaymentAmount option"

text \<open>The states of the first three stages; each extends the one before, as the spreads do.\<close>

record LightningPaymentFlowBuilderConfig =
  localNodeIds :: "Pubkey list"
  flaggedPubkeys :: "Pubkey list"

record LPFBWithInvoiceState = LightningPaymentFlowBuilderConfig +
  settlementMethod :: SettlementMethod
  btcProtocolAndBankFee :: "PaymentAmount option"
  usdProtocolAndBankFee :: "PaymentAmount option"
  paymentInitiationMethod :: PaymentInitiationMethod
  paymentHash :: "PaymentHash option"
  intraLedgerHash :: "IntraLedgerHash option"
  btcPaymentAmount :: "PaymentAmount option"
  inputAmount :: "int option"
  uncheckedAmount :: "number option"
  descriptionFromInvoice :: string
  skipProbeForDestination :: bool

record LPFBWithSenderWalletState = LPFBWithInvoiceState +
  senderWalletId :: WalletId
  senderWalletCurrency :: WalletCurrency
  senderAccountId :: AccountId
  usdPaymentAmount :: "PaymentAmount option"

record LPFBWithRecipientWalletState = LPFBWithSenderWalletState +
  recipientWalletId :: "WalletId option"
  recipientWalletCurrency :: "WalletCurrency option"
  recipientPubkey :: "Pubkey option"
  recipientAccountId :: "AccountId option"
  recipientUsername :: "Username option"
  recipientUserId :: "UserId option"

text \<open>
  A stage object is the closure of one of five factories over its state (for
  \<^verbatim>\<open>LPFBWithConversion\<close> over what its promise resolves to, a state or an error).
\<close>

datatype stage =
    LPFBWithInvoice LPFBWithInvoiceState
  | LPFBWithSenderWallet LPFBWithSenderWalletState
  | LPFBWithRecipientWallet LPFBWithRecipientWalletState
  | LPFBWithConversion "error + LPFBWithConversionState"
  | LPFBWithError error

text \<open>A call either returns or throws; \<^verbatim>\<open>TypeError\<close> is what calling a missing method throws.\<close>

datatype exn = Error string | TypeError string

datatype 'a outcome = Returns 'a | Throws exn

section \<open>Payment flow builder: the initial stage\<close>

definition settlementMethodFromDestination ::
  "BuilderEnv \<Rightarrow> LightningPaymentFlowBuilderConfig \<Rightarrow> Pubkey option \<Rightarrow> SettlementAndFees" where
  "settlementMethodFromDestination env config dest =
     (let sm = (case dest of
                  None \<Rightarrow> IntraLedger
                | Some d \<Rightarrow>
                    if d \<in> set (LightningPaymentFlowBuilderConfig.localNodeIds config)
                    then IntraLedger else Lightning)
      in \<lparr> SettlementAndFees.settlementMethod = sm,
           SettlementAndFees.btcProtocolAndBankFee =
             (if sm = IntraLedger then Some (btc (intraLedgerFees (LnFees env))) else None),
           SettlementAndFees.usdProtocolAndBankFee =
             (if sm = IntraLedger then Some (usd (intraLedgerFees (LnFees env))) else None) \<rparr>)"

text \<open>
  Modelled from the spec: \<^verbatim>\<open>ModifiedSet\<close> of \<^verbatim>\<open>@utils\<close> is not at hand. The flag is true
  iff the set of pubkeys along the invoice's final routing hops intersects the
  flagged-pubkey set.
\<close>

definition skipProbeFromInvoice ::
  "BuilderEnv \<Rightarrow> LightningPaymentFlowBuilderConfig \<Rightarrow> LnInvoice \<Rightarrow> bool" where
  "skipProbeFromInvoice env config invoice =
     list_ex (\<lambda>p. List.member (LightningPaymentFlowBuilderConfig.flaggedPubkeys config) p)
       (parseFinalHopsFromInvoice env invoice)"

definition withInvoice ::
  "BuilderEnv \<Rightarrow> LightningPaymentFlowBuilderConfig \<Rightarrow> LnInvoice \<Rightarrow> stage" where
  "withInvoice env config invoice =
     (case paymentAmount invoice of
        None \<Rightarrow> LPFBWithError
          (InvalidLightningPaymentFlowBuilderStateError ''withInvoice - paymentAmount missing'')
      | Some pa \<Rightarrow>
         (let sf = settlementMethodFromDestination env config (destination invoice)
          in LPFBWithInvoice
            \<lparr> LightningPaymentFlowBuilderConfig.localNodeIds =
                 LightningPaymentFlowBuilderConfig.localNodeIds config,
              LightningPaymentFlowBuilderConfig.flaggedPubkeys =
                 LightningPaymentFlowBuilderConfig.flaggedPubkeys config,
              LPFBWithInvoiceState.settlementMethod = SettlementAndFees.settlementMethod sf,
              LPFBWithInvoiceState.btcProtocolAndBankFee = SettlementAndFees.btcProtocolAndBankFee sf,
              LPFBWithInvoiceState.usdProtocolAndBankFee = SettlementAndFees.usdProtocolAndBankFee sf,
              LPFBWithInvoiceState.paymentInitiationMethod = InitiatedLightning,
              LPFBWithInvoiceState.paymentHash = Some (LnInvoice.paymentHash invoice),
              LPFBWithInvoiceState.intraLedgerHash = None,
              LPFBWithInvoiceState.btcPaymentAmount = Some pa,
              LPFBWithInvoiceState.inputAmount = Some (PaymentAmount.amount pa),
              LPFBWithInvoiceState.uncheckedAmount = None,
              LPFBWithInvoiceState.descriptionFromInvoice = description invoice,
              LPFBWithInvoiceState.skipProbeForDestination = skipProbeFromInvoice env config invoice \<rparr>))"

definition withNoAmountInvoice ::
  "BuilderEnv \<Rightarrow> LightningPaymentFlowBuilderConfig \<Rightarrow> LnInvoice \<Rightarrow> number \<Rightarrow> stage" where
  "withNoAmountInvoice env config invoice unchecked =
     (let sf = settlementMethodFromDestination env config (destination invoice)
      in LPFBWithInvoice
        \<lparr> LightningPaymentFlowBuilderConfig.localNodeIds =
             LightningPaymentFlowBuilderConfig.localNodeIds config,
          LightningPaymentFlowBuilderConfig.flaggedPubkeys =
             LightningPaymentFlowBuilderConfig.flaggedPubkeys config,
          LPFBWithInvoiceState.settlementMethod = SettlementAndFees.settlementMethod sf,
          LPFBWithInvoiceState.btcProtocolAndBankFee = SettlementAndFees.btcProtocolAndBankFee sf,
          LPFBWithInvoiceState.usdProtocolAndBankFee = SettlementAndFees.usdProtocolAndBankFee sf,
          LPFBWithInvoiceState.paymentInitiationMethod = InitiatedLightning,
          LPFBWithInvoiceState.paymentHash = Some (LnInvoice.paymentHash invoice),
          LPFBWithInvoiceState.intraLedgerHash = None,
          LPFBWithInvoiceState.btcPaymentAmount = None,
          LPFBWithInvoiceState.inputAmount = None,
          LPFBWithInvoiceState.uncheckedAmount = Some unchecked,
          LPFBWithInvoiceState.descriptionFromInvoice = description invoice,
          LPFBWithInvoiceState.skipProbeForDestination = skipProbeFromInvoice env config invoice \<rparr>)"

definition withoutInvoice ::
  "BuilderEnv \<Rightarrow> LightningPaymentFlowBuilderConfig \<Rightarrow> number \<Rightarrow> string \<Rightarrow> stage" where
  "withoutInvoice env config unchecked descr =
     (let sf = settlementMethodFromDestination env config None
      in LPFBWithInvoice
        \<lparr> LightningPaymentFlowBuilderConfig.localNodeIds =
             LightningPaymentFlowBuilderConfig.localNodeIds config,
          LightningPaymentFlowBuilderConfig.flaggedPubkeys =
             LightningPaymentFlowBuilderConfig.flaggedPubkeys config,
          LPFBWithInvoiceState.settlementMethod = SettlementAndFees.settlementMethod sf,
          LPFBWithInvoiceState.btcProtocolAndBankFee = SettlementAndFees.btcProtocolAndBankFee sf,
          LPFBWithInvoiceState.usdProtocolAndBankFee = SettlementAndFees.usdProtocolAndBankFee sf,
          LPFBWithInvoiceState.paymentInitiationMethod = InitiatedIntraLedger,
          LPFBWithInvoiceState.paymentHash = None,
          LPFBWithInvoiceState.intraLedgerHash = Some (generateIntraLedgerHash env),
          LPFBWithInvoiceState.btcPaymentAmount = None,
          LPFBWithInvoiceState.inputAmount = None,
          LPFBWithInvoiceState.uncheckedAmount = Some unchecked,
          LPFBWithInvoiceState.descriptionFromInvoice = descr,
          LPFBWithInvoiceState.skipProbeForDestination = False \<rparr>)"

section \<open>Payment flow builder: \<^verbatim>\<open>LPFBWithInvoice\<close>\<close>

text \<open>\<^verbatim>\<open>fee || LnFees().maxProtocolAndBankFee(paymentAmount)\<close>: an attached fee is kept.\<close>

definition feeOrMax :: "BuilderEnv \<Rightarrow> PaymentAmount option \<Rightarrow> PaymentAmount \<Rightarrow> PaymentAmount" where
  "feeOrMax env fee pa = (case fee of Some f \<Rightarrow> f | None \<Rightarrow> maxProtocolAndBankFee (LnFees env) pa)"

definition LPFBWithInvoice_withSenderWallet ::
  "BuilderEnv \<Rightarrow> LPFBWithInvoiceState \<Rightarrow> WalletDescriptor \<Rightarrow> stage outcome" where
  "LPFBWithInvoice_withSenderWallet env state senderWallet =
     (case LPFBWithInvoiceState.uncheckedAmount state of
        Some unchecked \<Rightarrow>
          if WalletDescriptor.currency senderWallet = Btc
          then (case checkedToBtcPaymentAmount env unchecked of
                  Inl e \<Rightarrow> Returns (LPFBWithError e)
                | Inr pa \<Rightarrow> Returns (LPFBWithSenderWallet
                    (LPFBWithInvoiceState.extend
                      (state\<lparr> LPFBWithInvoiceState.btcPaymentAmount := Some pa,
                              LPFBWithInvoiceState.inputAmount := Some (PaymentAmount.amount pa),
                              LPFBWithInvoiceState.btcProtocolAndBankFee :=
                                Some (feeOrMax env (LPFBWithInvoiceState.btcProtocolAndBankFee state) pa) \<rparr>)
                      (LPFBWithSenderWalletState.fields
                        (id' senderWallet) (WalletDescriptor.currency senderWallet)
                        (accountId senderWallet) None))))
          else (case checkedToUsdPaymentAmount env unchecked of
                  Inl e \<Rightarrow> Returns (LPFBWithError e)
                | Inr pa \<Rightarrow> Returns (LPFBWithSenderWallet
                    (LPFBWithInvoiceState.extend
                      (state\<lparr> LPFBWithInvoiceState.inputAmount := Some (PaymentAmount.amount pa),
                              LPFBWithInvoiceState.usdProtocolAndBankFee :=
                                Some (feeOrMax env (LPFBWithInvoiceState.usdProtocolAndBankFee state) pa) \<rparr>)
                      (LPFBWithSenderWalletState.fields
                        (id' senderWallet) (WalletDescriptor.currency senderWallet)
                        (accountId senderWallet) (Some pa)))))
      | None \<Rightarrow>
         (case LPFBWithInvoiceState.btcPaymentAmount state of
            Some pa \<Rightarrow>
              if truthy_opt_bigint (LPFBWithInvoiceState.inputAmount state)
              then Returns (LPFBWithSenderWallet
                    (LPFBWithInvoiceState.extend
                      (state\<lparr> LPFBWithInvoiceState.btcProtocolAndBankFee :=
                                Some (feeOrMax env (LPFBWithInvoiceState.btcProtocolAndBankFee state) pa) \<rparr>)
                      (LPFBWithSenderWalletState.fields
                        (id' senderWallet) (WalletDescriptor.currency senderWallet)
                        (accountId senderWallet) None)))
              else Throws (Error ''withSenderWallet impossible'')
          | None \<Rightarrow> Throws (Error ''withSenderWallet impossible'')))"

section \<open>Payment flow builder: \<^verbatim>\<open>LPFBWithSenderWallet\<close>\<close>

definition noRecipient :: "LPFBWithSenderWalletState \<Rightarrow> LPFBWithRecipientWalletState" where
  "noRecipient state =
     LPFBWithSenderWalletState.extend state
       (LPFBWithRecipientWalletState.fields None None None None None None)"

definition LPFBWithSenderWallet_withoutRecipientWallet :: "LPFBWithSenderWalletState \<Rightarrow> stage" where
  "LPFBWithSenderWallet_withoutRecipientWallet state =
     (if LPFBWithInvoiceState.settlementMethod state = IntraLedger
      then LPFBWithError (InvalidLightningPaymentFlowBuilderStateError
             ''withoutRecipientWallet called but settlementMethod is IntraLedger'')
      else LPFBWithRecipientWallet (noRecipient state))"

definition LPFBWithSenderWallet_withRecipientWallet ::
  "LPFBWithSenderWalletState \<Rightarrow> RecipientWalletArgs \<Rightarrow> stage" where
  "LPFBWithSenderWallet_withRecipientWallet state args =
     (if id' args = LPFBWithSenderWalletState.senderWalletId state
      then LPFBWithError SelfPaymentError
      else if WalletDescriptor.currency args = Usd
            \<and> (RecipientWalletArgs.usdPaymentAmount args \<noteq> None)
               = truthy_opt_number (LPFBWithInvoiceState.uncheckedAmount state)
      then LPFBWithError (InvalidLightningPaymentFlowBuilderStateError
             ''withRecipientWallet incorrect combination of usdPaymentAmount and uncheckedAmount'')
      else LPFBWithRecipientWallet
             (LPFBWithSenderWalletState.extend
               (state\<lparr> LPFBWithSenderWalletState.usdPaymentAmount :=
                   (case RecipientWalletArgs.usdPaymentAmount args of
                      Some u \<Rightarrow> Some u
                    | None \<Rightarrow> LPFBWithSenderWalletState.usdPaymentAmount state) \<rparr>)
               (LPFBWithRecipientWalletState.fields
                 (Some (id' args)) (Some (WalletDescriptor.currency args)) (pubkey args)
                 (Some (accountId args)) (username args) (Some (userId args)))))"

definition LPFBWithSenderWallet_isIntraLedger :: "LPFBWithSenderWalletState \<Rightarrow> bool" where
  "LPFBWithSenderWallet_isIntraLedger state =
     (LPFBWithInvoiceState.settlementMethod state = IntraLedger)"

section \<open>Payment flow builder: \<^verbatim>\<open>LPFBWithRecipientWallet\<close>\<close>

text \<open>
  \<^verbatim>\<open>{ ...stateWithCreatedAt, btcPaymentAmount, usdPaymentAmount, btcProtocolAndBankFee,
  usdProtocolAndBankFee }\<close>: the state with its creation time and the four amounts set.
\<close>

definition withAmounts ::
  "LPFBWithRecipientWalletState \<Rightarrow> Date \<Rightarrow> PaymentAmount \<Rightarrow> PaymentAmount \<Rightarrow> PaymentAmount
     \<Rightarrow> PaymentAmount \<Rightarrow> LPFBWithConversionState" where
  "withAmounts state created btcAmount usdAmount btcFee usdFee =
     \<lparr> LPFBWithConversionState.localNodeIds = LightningPaymentFlowBuilderConfig.localNodeIds state,
       LPFBWithConversionState.flaggedPubkeys = LightningPaymentFlowBuilderConfig.flaggedPubkeys state,
       LPFBWithConversionState.settlementMethod = LPFBWithInvoiceState.settlementMethod state,
       LPFBWithConversionState.btcProtocolAndBankFee = btcFee,
       LPFBWithConversionState.usdProtocolAndBankFee = usdFee,
       LPFBWithConversionState.paymentInitiationMethod = LPFBWithInvoiceState.paymentInitiationMethod state,
       LPFBWithConversionState.paymentHash = LPFBWithInvoiceState.paymentHash state,
       LPFBWithConversionState.intraLedgerHash = LPFBWithInvoiceState.intraLedgerHash state,
       LPFBWithConversionState.btcPaymentAmount = btcAmount,
       LPFBWithConversionState.inputAmount = LPFBWithInvoiceState.inputAmount state,
       LPFBWithConversionState.uncheckedAmount = LPFBWithInvoiceState.uncheckedAmount state,
       LPFBWithConversionState.descriptionFromInvoice = LPFBWithInvoiceState.descriptionFromInvoice state,
       LPFBWithConversionState.skipProbeForDestination = LPFBWithInvoiceState.skipProbeForDestination state,
       LPFBWithConversionState.senderWalletId = LPFBWithSenderWalletState.senderWalletId state,
       LPFBWithConversionState.senderWalletCurrency = LPFBWithSenderWalletState.senderWalletCurrency state,
       LPFBWithConversionState.senderAccountId = LPFBWithSenderWalletState.senderAccountId state,
       LPFBWithConversionState.usdPaymentAmount = usdAmount,
       LPFBWithConversionState.recipientWalletId = LPFBWithRecipientWalletState.recipientWalletId state,
       LPFBWithConversionState.recipientWalletCurrency = LPFBWithRecipientWalletState.recipientWalletCurrency state,
       LPFBWithConversionState.recipientPubkey = LPFBWithRecipientWalletState.recipientPubkey state,
       LPFBWithConversionState.recipientAccountId = LPFBWithRecipientWalletState.recipientAccountId state,
       LPFBWithConversionState.recipientUsername = LPFBWithRecipientWalletState.recipientUsername state,
       LPFBWithConversionState.recipientUserId = LPFBWithRecipientWalletState.recipientUserId state,
       LPFBWithConversionState.createdAt = created \<rparr>"

text \<open>
  The two asynchronous closures of \<^verbatim>\<open>withConversion\<close>. Each occurs twice in the source,
  once with the \<^verbatim>\<open>mid\<close> lookup and once with a hedge lookup; the lookup is the argument
  \<open>lookup\<close> here.
\<close>

definition updatedStateFromBtcPaymentAmount ::
  "BuilderEnv \<Rightarrow> LPFBWithRecipientWalletState \<Rightarrow> (PaymentAmount \<Rightarrow> error + PaymentAmount)
     \<Rightarrow> PaymentAmount \<Rightarrow> PaymentAmount \<Rightarrow> error + LPFBWithConversionState" where
  "updatedStateFromBtcPaymentAmount env state lookup btcAmount btcFee =
     (case lookup btcAmount of
        Inl e \<Rightarrow> Inl e
      | Inr convertedAmount \<Rightarrow>
         (case PriceRatio env \<lparr> btc = btcAmount, usd = convertedAmount \<rparr> of
            Inl e \<Rightarrow> Inl e
          | Inr priceRatio \<Rightarrow>
              Inr (withAmounts state (now env) btcAmount convertedAmount btcFee
                     (convertFromBtcToCeil priceRatio btcFee))))"

definition updatedStateFromUsdPaymentAmount ::
  "BuilderEnv \<Rightarrow> LPFBWithRecipientWalletState \<Rightarrow> (PaymentAmount \<Rightarrow> error + PaymentAmount)
     \<Rightarrow> PaymentAmount \<Rightarrow> PaymentAmount \<Rightarrow> error + LPFBWithConversionState" where
  "updatedStateFromUsdPaymentAmount env state lookup usdAmount usdFee =
     (case lookup usdAmount of
        Inl e \<Rightarrow> Inl e
      | Inr convertedAmount \<Rightarrow>
         (case PriceRatio env \<lparr> btc = convertedAmount, usd = usdAmount \<rparr> of
            Inl e \<Rightarrow> Inl e
          | Inr priceRatio \<Rightarrow>
              Inr (withAmounts state (now env) convertedAmount usdAmount
                     (convertFromUsd priceRatio usdFee) usdFee)))"

definition noConversionRequired :: "LPFBWithRecipientWalletState \<Rightarrow> bool" where
  "noConversionRequired state =
     ((LPFBWithSenderWalletState.senderWalletCurrency state = Btc
        \<and> LPFBWithInvoiceState.settlementMethod state = Lightning)
      \<or> Some (LPFBWithSenderWalletState.senderWalletCurrency state)
          = LPFBWithRecipientWalletState.recipientWalletCurrency state)"

definition LPFBWithRecipientWallet_withConversion ::
  "BuilderEnv \<Rightarrow> LPFBWithRecipientWalletState \<Rightarrow> WithConversionArgs \<Rightarrow> stage" where
  "LPFBWithRecipientWallet_withConversion env state args =
     (let btcAmount = LPFBWithInvoiceState.btcPaymentAmount state;
          usdAmount = LPFBWithSenderWalletState.usdPaymentAmount state;
          btcFee = LPFBWithInvoiceState.btcProtocolAndBankFee state;
          usdFee = LPFBWithInvoiceState.usdProtocolAndBankFee state
      in if noConversionRequired state
         then (case (btcAmount, btcFee, usdAmount, usdFee) of
                 (Some b, Some bf, Some u, Some uf) \<Rightarrow>
                   LPFBWithConversion (Inr (withAmounts state (now env) b u bf uf))
               | (Some b, Some bf, _, _) \<Rightarrow>
                   LPFBWithConversion
                     (updatedStateFromBtcPaymentAmount env state (usdFromBtc (mid args)) b bf)
               | (_, _, Some u, Some uf) \<Rightarrow>
                   LPFBWithConversion
                     (updatedStateFromUsdPaymentAmount env state (btcFromUsd (mid args)) u uf)
               | _ \<Rightarrow> LPFBWithError (InvalidLightningPaymentFlowBuilderStateError
                   ''withConversion - btcPaymentAmount || btcProtocolAndBankFee not set''))
         else (case (btcAmount, btcFee) of
                 (Some b, Some bf) \<Rightarrow>
                   (case (LPFBWithRecipientWalletState.recipientWalletCurrency state = Some Usd,
                          usdAmount, usdFee) of
                      (True, Some u, Some uf) \<Rightarrow>
                        LPFBWithConversion (Inr (withAmounts state (now env) b u bf uf))
                    | _ \<Rightarrow>
                        LPFBWithConversion
                          (updatedStateFromBtcPaymentAmount env state
                             (if LPFBWithSenderWalletState.senderWalletCurrency state = Btc
                              then usdFromBtc (hedgeBuyUsd args)
                              else usdFromBtc (hedgeSellUsd args)) b bf))
               | _ \<Rightarrow>
                   (case (usdAmount, usdFee) of
                      (Some u, Some uf) \<Rightarrow>
                        LPFBWithConversion
                          (updatedStateFromUsdPaymentAmount env state
                             (if LPFBWithSenderWalletState.senderWalletCurrency state = Btc
                              then btcFromUsd (hedgeBuyUsd args)
                              else btcFromUsd (hedgeSellUsd args)) u uf)
                    | _ \<Rightarrow> LPFBWithError (InvalidLightningPaymentFlowBuilderStateError
                        ''withConversion - impossible withConversion state''))))"

section \<open>Payment flow builder: \<^verbatim>\<open>LPFBWithConversion\<close>\<close>

text \<open>The argument of \<^verbatim>\<open>PaymentFlow\<close>, given the two fields that the spread of \<^verbatim>\<open>hash\<close> sets.\<close>

definition paymentFlowWith ::
  "PaymentHash option \<Rightarrow> IntraLedgerHash option \<Rightarrow> LPFBWithRouteState \<Rightarrow> PaymentFlow" where
  "paymentFlowWith ph ih state =
     \<lparr> PaymentFlow.paymentHash = ph,
       PaymentFlow.intraLedgerHash = ih,
       PaymentFlow.senderWalletId = LPFBWithConversionState.senderWalletId state,
       PaymentFlow.senderWalletCurrency = LPFBWithConversionState.senderWalletCurrency state,
       PaymentFlow.senderAccountId = LPFBWithConversionState.senderAccountId state,
       PaymentFlow.recipientWalletId = LPFBWithConversionState.recipientWalletId state,
       PaymentFlow.recipientWalletCurrency = LPFBWithConversionState.recipientWalletCurrency state,
       PaymentFlow.recipientAccountId = LPFBWithConversionState.recipientAccountId state,
       PaymentFlow.recipientPubkey = LPFBWithConversionState.recipientPubkey state,
       PaymentFlow.recipientUsername = LPFBWithConversionState.recipientUsername state,
       PaymentFlow.recipientUserId = LPFBWithConversionState.recipientUserId state,
       PaymentFlow.descriptionFromInvoice = LPFBWithConversionState.descriptionFromInvoice state,
       PaymentFlow.skipProbeForDestination = LPFBWithConversionState.skipProbeForDestination state,
       PaymentFlow.btcPaymentAmount = LPFBWithConversionState.btcPaymentAmount state,
       PaymentFlow.usdPaymentAmount = LPFBWithConversionState.usdPaymentAmount state,
       PaymentFlow.inputAmount = LPFBWithConversionState.inputAmount state,
       PaymentFlow.createdAt = LPFBWithConversionState.createdAt state,
       PaymentFlow.paymentSentAndPending = False,
       PaymentFlow.settlementMethod = LPFBWithConversionState.settlementMethod state,
       PaymentFlow.paymentInitiationMethod = LPFBWithConversionState.paymentInitiationMethod state,
       PaymentFlow.btcProtocolAndBankFee = LPFBWithConversionState.btcProtocolAndBankFee state,
       PaymentFlow.usdProtocolAndBankFee = LPFBWithConversionState.usdProtocolAndBankFee state,
       PaymentFlow.outgoingNodePubkey = LPFBWithRouteState.outgoingNodePubkey state,
       PaymentFlow.cachedRoute = LPFBWithRouteState.checkedRoute state \<rparr>"

definition paymentFromState :: "LPFBWithRouteState \<Rightarrow> error + PaymentFlow" where
  "paymentFromState state =
     (if truthy_opt_string (LPFBWithConversionState.paymentHash state)
      then Inr (paymentFlowWith (LPFBWithConversionState.paymentHash state) None state)
      else if truthy_opt_string (LPFBWithConversionState.intraLedgerHash state)
      then Inr (paymentFlowWith None (LPFBWithConversionState.intraLedgerHash state) state)
      else Inl InvalidLightningPaymentFlowStateError)"

definition LPFBWithConversion_withoutRoute ::
  "error + LPFBWithConversionState \<Rightarrow> error + PaymentFlow" where
  "LPFBWithConversion_withoutRoute statePromise =
     (case statePromise of
        Inl e \<Rightarrow> Inl e
      | Inr state \<Rightarrow>
          paymentFromState
            (LPFBWithConversionState.extend state (LPFBWithRouteState.fields None None)))"

definition LPFBWithConversion_withRoute ::
  "BuilderEnv \<Rightarrow> error + LPFBWithConversionState \<Rightarrow> Pubkey \<Rightarrow> RawRoute \<Rightarrow> error + PaymentFlow" where
  "LPFBWithConversion_withRoute env statePromise pk rawRoute =
     (case statePromise of
        Inl e \<Rightarrow> Inl e
      | Inr state \<Rightarrow>
         (case PriceRatio env \<lparr> btc = LPFBWithConversionState.btcPaymentAmount state,
                                 usd = LPFBWithConversionState.usdPaymentAmount state \<rparr> of
            Inl e \<Rightarrow> Inl e
          | Inr priceRatio \<Rightarrow>
             (case feeFromRawRoute (LnFees env) rawRoute of
                Inl e \<Rightarrow> Inl e
              | Inr btcFee \<Rightarrow>
                  paymentFromState
                    (LPFBWithConversionState.extend
                      (state\<lparr> LPFBWithConversionState.btcProtocolAndBankFee := btcFee,
                              LPFBWithConversionState.usdProtocolAndBankFee :=
                                convertFromBtcToCeil priceRatio btcFee \<rparr>)
                      (LPFBWithRouteState.fields (Some pk) (Some rawRoute))))))"

definition LPFBWithConversion_btcPaymentAmount ::
  "error + LPFBWithConversionState \<Rightarrow> error + PaymentAmount" where
  "LPFBWithConversion_btcPaymentAmount statePromise =
     (case statePromise of Inl e \<Rightarrow> Inl e
      | Inr state \<Rightarrow> Inr (LPFBWithConversionState.btcPaymentAmount state))"

definition LPFBWithConversion_usdPaymentAmount ::
  "error + LPFBWithConversionState \<Rightarrow> error + PaymentAmount" where
  "LPFBWithConversion_usdPaymentAmount statePromise =
     (case statePromise of Inl e \<Rightarrow> Inl e
      | Inr state \<Rightarrow> Inr (LPFBWithConversionState.usdPaymentAmount state))"

definition LPFBWithConversion_skipProbeForDestination ::
  "error + LPFBWithConversionState \<Rightarrow> error + bool" where
  "LPFBWithConversion_skipProbeForDestination statePromise =
     (case statePromise of Inl e \<Rightarrow> Inl e
      | Inr state \<Rightarrow> Inr (LPFBWithConversionState.skipProbeForDestination state))"

definition LPFBWithConversion_isIntraLedger ::
  "error + LPFBWithConversionState \<Rightarrow> error + bool" where
  "LPFBWithConversion_isIntraLedger statePromise =
     (case statePromise of Inl e \<Rightarrow> Inl e
      | Inr state \<Rightarrow> Inr (LPFBWithConversionState.settlementMethod state = IntraLedger))"

definition LPFBWithConversion_isTradeIntraAccount ::
  "error + LPFBWithConversionState \<Rightarrow> error + bool" where
  "LPFBWithConversion_isTradeIntraAccount statePromise =
     (case statePromise of Inl e \<Rightarrow> Inl e
      | Inr state \<Rightarrow>
          Inr (Some (LPFBWithConversionState.senderAccountId state)
                 = LPFBWithConversionState.recipientAccountId state
               \<and> Some (LPFBWithConversionState.senderWalletCurrency state)
                 \<noteq> LPFBWithConversionState.recipientWalletCurrency state))"

section \<open>Payment flow builder: \<^verbatim>\<open>LPFBWithError\<close>\<close>

text \<open>Every method of the error stage ignores its arguments.\<close>

definition LPFBWithError_withSenderWallet :: "error \<Rightarrow> stage" where
  "LPFBWithError_withSenderWallet e = LPFBWithError e"

definition LPFBWithError_withoutRecipientWallet :: "error \<Rightarrow> stage" where
  "LPFBWithError_withoutRecipientWallet e = LPFBWithError e"

definition LPFBWithError_withRecipientWallet :: "error \<Rightarrow> stage" where
  "LPFBWithError_withRecipientWallet e = LPFBWithError e"

definition LPFBWithError_withConversion :: "error \<Rightarrow> stage" where
  "LPFBWithError_withConversion e = LPFBWithError e"

definition LPFBWithError_withRoute :: "error \<Rightarrow> error" where
  "LPFBWithError_withRoute e = e"

definition LPFBWithError_withoutRoute :: "error \<Rightarrow> error" where
  "LPFBWithError_withoutRoute e = e"

definition LPFBWithError_skipProbeForDestination :: "error \<Rightarrow> error" where
  "LPFBWithError_skipProbeForDestination e = e"

definition LPFBWithError_isIntraLedger :: "error \<Rightarrow> error" where
  "LPFBWithError_isIntraLedger e = e"

definition LPFBWithError_isTradeIntraAccount :: "error \<Rightarrow> error" where
  "LPFBWithError_isTradeIntraAccount e = e"

definition LPFBWithError_btcPaymentAmount :: "error \<Rightarrow> error" where
  "LPFBWithError_btcPaymentAmount e = e"

definition LPFBWithError_usdPaymentAmount :: "error \<Rightarrow> error" where
  "LPFBWithError_usdPaymentAmount e = e"

section \<open>Method calls on a stage object\<close>

text \<open>
  The eleven methods with their arguments, and the values a call returns (for an
  asynchronous method, the value its promise resolves to). A stage object has exactly the
  methods of the object literal its factory returns; calling any other method on it
  throws a \<^verbatim>\<open>TypeError\<close>.
\<close>

datatype call =
    WithSenderWallet WalletDescriptor
  | WithoutRecipientWallet
  | WithRecipientWallet RecipientWalletArgs
  | WithConversion WithConversionArgs
  | WithRoute Pubkey RawRoute
  | WithoutRoute
  | SkipProbeForDestination
  | IsIntraLedger
  | IsTradeIntraAccount
  | BtcPaymentAmount
  | UsdPaymentAmount

datatype jsval =
    VStage stage
  | VError error
  | VFlow PaymentFlow
  | VBool bool
  | VAmount PaymentAmount

definition flowOrError :: "error + PaymentFlow \<Rightarrow> jsval" where
  "flowOrError r = (case r of Inl e \<Rightarrow> VError e | Inr f \<Rightarrow> VFlow f)"

definition boolOrError :: "error + bool \<Rightarrow> jsval" where
  "boolOrError r = (case r of Inl e \<Rightarrow> VError e | Inr b \<Rightarrow> VBool b)"

definition amountOrError :: "error + PaymentAmount \<Rightarrow> jsval" where
  "amountOrError r = (case r of Inl e \<Rightarrow> VError e | Inr a \<Rightarrow> VAmount a)"

definition notAFunction :: "jsval outcome" where
  "notAFunction = Throws (TypeError ''not a function'')"

fun invokeWithInvoice :: "BuilderEnv \<Rightarrow> LPFBWithInvoiceState \<Rightarrow> call \<Rightarrow> jsval outcome" where
  "invokeWithInvoice env state (WithSenderWallet w) =
     (case LPFBWithInvoice_withSenderWallet env state w of
        Returns s \<Rightarrow> Returns (VStage s)
      | Throws x \<Rightarrow> Throws x)"
| "invokeWithInvoice env state _ = notAFunction"

fun invokeWithSenderWallet :: "LPFBWithSenderWalletState \<Rightarrow> call \<Rightarrow> jsval outcome" where
  "invokeWithSenderWallet state WithoutRecipientWallet =
     Returns (VStage (LPFBWithSenderWallet_withoutRecipientWallet state))"
| "invokeWithSenderWallet state (WithRecipientWallet args) =
     Returns (VStage (LPFBWithSenderWallet_withRecipientWallet state args))"
| "invokeWithSenderWallet state IsIntraLedger =
     Returns (VBool (LPFBWithSenderWallet_isIntraLedger state))"
| "invokeWithSenderWallet state _ = notAFunction"

fun invokeWithRecipientWallet ::
  "BuilderEnv \<Rightarrow> LPFBWithRecipientWalletState \<Rightarrow> call \<Rightarrow> jsval outcome" where
  "invokeWithRecipientWallet env state (WithConversion args) =
     Returns (VStage (LPFBWithRecipientWallet_withConversion env state args))"
| "invokeWithRecipientWallet env state _ = notAFunction"

fun invokeWithConversion ::
  "BuilderEnv \<Rightarrow> error + LPFBWithConversionState \<Rightarrow> call \<Rightarrow> jsval outcome" where
  "invokeWithConversion env p (WithRoute pk rawRoute) =
     Returns (flowOrError (LPFBWithConversion_withRoute env p pk rawRoute))"
| "invokeWithConversion env p WithoutRoute =
     Returns (flowOrError (LPFBWithConversion_withoutRoute p))"
| "invokeWithConversion env p BtcPaymentAmount =
     Returns (amountOrError (LPFBWithConversion_btcPaymentAmount p))"
| "invokeWithConversion env p UsdPaymentAmount =
     Returns (amountOrError (LPFBWithConversion_usdPaymentAmount p))"
| "invokeWithConversion env p SkipProbeForDestination =
     Returns (boolOrError (LPFBWithConversion_skipProbeForDestination p))"
| "invokeWithConversion env p IsIntraLedger =
     Returns (boolOrError (LPFBWithConversion_isIntraLedger p))"
| "invokeWithConversion env p IsTradeIntraAccount =
     Returns (boolOrError (LPFBWithConversion_isTradeIntraAccount p))"
| "invokeWithConversion env p _ = notAFunction"

fun invokeWithError :: "error \<Rightarrow> call \<Rightarrow> jsval outcome" where
  "invokeWithError e (WithSenderWallet w) = Returns (VStage (LPFBWithError_withSenderWallet e))"
| "invokeWithError e WithoutRecipientWallet =
     Returns (VStage (LPFBWithError_withoutRecipientWallet e))"
| "invokeWithError e (WithRecipientWallet args) =
     Returns (VStage (LPFBWithError_withRecipientWallet e))"
| "invokeWithError e (WithConversion args) = Returns (VStage (LPFBWithError_withConversion e))"
| "invokeWithError e (WithRoute pk rawRoute) = Returns (VError (LPFBWithError_withRoute e))"
| "invokeWithError e WithoutRoute = Returns (VError (LPFBWithError_withoutRoute e))"
| "invokeWithError e SkipProbeForDestination =
     Returns (VError (LPFBWithError_skipProbeForDestination e))"
| "invokeWithError e IsIntraLedger = Returns (VError (LPFBWithError_isIntraLedger e))"
| "invokeWithError e IsTradeIntraAccount = Returns (VError (LPFBWithError_isTradeIntraAccount e))"
| "invokeWithError e BtcPaymentAmount = Returns (VError (LPFBWithError_btcPaymentAmount e))"
| "invokeWithError e UsdPaymentAmount = Returns (VError (LPFBWithError_usdPaymentAmount e))"

fun invoke :: "BuilderEnv \<Rightarrow> stage \<Rightarrow> call \<Rightarrow> jsval outcome" where
  "invoke env (LPFBWithInvoice state) c = invokeWithInvoice env state c"
| "invoke env (LPFBWithSenderWallet state) c = invokeWithSenderWallet state c"
| "invoke env (LPFBWithRecipientWallet state) c = invokeWithRecipientWallet env state c"
| "invoke env (LPFBWithConversion p) c = invokeWithConversion env p c"
| "invoke env (LPFBWithError e) c = invokeWithError e c"

text \<open>
  A caller's chain of calls: the caller holds a stage object, each call is made on the
  object held, and a call that returns a stage object replaces it. The result is the
  object held at the end and the values returned, in order; a throw ends the chain.
\<close>

definition held :: "stage \<Rightarrow> jsval \<Rightarrow> stage" where
  "held s v = (case v of VStage s' \<Rightarrow> s' | _ \<Rightarrow> s)"

fun run :: "BuilderEnv \<Rightarrow> stage \<Rightarrow> call list \<Rightarrow> (stage \<times> jsval list) outcome" where
  "run env s [] = Returns (s, [])"
| "run env s (c # cs) =
     (case invoke env s c of
        Throws x \<Rightarrow> Throws x
      | Returns v \<Rightarrow>
         (case run env (held s v) cs of
            Throws x \<Rightarrow> Throws x
          | Returns (s', vs) \<Rightarrow> Returns (s', v # vs)))"

text \<open>The stage object held after a chain of calls, if no call threw.\<close>

definition stageAfter :: "BuilderEnv \<Rightarrow> stage \<Rightarrow> call list \<Rightarrow> stage option" where
  "stageAfter env s cs = (case run env s cs of Returns (s', vs) \<Rightarrow> Some s' | Throws x \<Rightarrow> None)"

text \<open>Which methods return a stage object rather than a promise.\<close>

fun returnsStage :: "call \<Rightarrow> bool" where
  "returnsStage (WithSenderWallet w) = True"
| "returnsStage WithoutRecipientWallet = True"
| "returnsStage (WithRecipientWallet args) = True"
| "returnsStage (WithConversion args) = True"
| "returnsStage _ = False"

section \<open>Example values\<close>

definition ex_limitsEnv :: LimitsEnv where
  "ex_limitsEnv = \<lparr> paymentAmountFromNumber =
       (\<lambda>n c. case n of Finite r \<Rightarrow> Inr \<lparr> PaymentAmount.amount = \<lfloor>r\<rfloor>, PaymentAmount.currency = c \<rparr>
                     | _ \<Rightarrow> Inl (ValidationError ''not a safe integer'')),
     numberToString = (\<lambda>n. if n = Finite 100000 then ''100000'' else ''NaN'') \<rparr>"

definition ex_priceRatio :: PriceRatio where
  "ex_priceRatio = \<lparr> convertFromBtc = (\<lambda>b. Inr \<lparr> PaymentAmount.amount = PaymentAmount.amount b div 50, PaymentAmount.currency = Usd \<rparr>),
     convertFromUsd = (\<lambda>u. \<lparr> PaymentAmount.amount = PaymentAmount.amount u * 50, PaymentAmount.currency = Btc \<rparr>),
     convertFromBtcToCeil = (\<lambda>b. \<lparr> PaymentAmount.amount = (PaymentAmount.amount b + 49) div 50, PaymentAmount.currency = Usd \<rparr>) \<rparr>"

definition ex_env :: BuilderEnv where
  "ex_env =
     \<lparr> LnFees =
         \<lparr> intraLedgerFees =
             \<lparr> btc = \<lparr> PaymentAmount.amount = 0, PaymentAmount.currency = Btc \<rparr>,
               usd = \<lparr> PaymentAmount.amount = 0, PaymentAmount.currency = Usd \<rparr> \<rparr>,
           maxProtocolAndBankFee =
             (\<lambda>a. \<lparr> PaymentAmount.amount = PaymentAmount.amount a div 200 + 1,
                     PaymentAmount.currency = PaymentAmount.currency a \<rparr>),
           feeFromRawRoute =
             (\<lambda>r. Inr \<lparr> PaymentAmount.amount = 7, PaymentAmount.currency = Btc \<rparr>) \<rparr>,
       PriceRatio =
         (\<lambda>p. if PaymentAmount.amount (btc p) \<le> 0 \<or> PaymentAmount.amount (usd p) \<le> 0
              then Inl (ValidationError ''InvalidZeroAmountPriceRatioInputError'')
              else Inr ex_priceRatio),
       checkedToBtcPaymentAmount =
         (\<lambda>n. case n of
                Finite r \<Rightarrow>
                  if 0 < r \<and> of_int \<lfloor>r\<rfloor> = r
                  then Inr \<lparr> PaymentAmount.amount = \<lfloor>r\<rfloor>, PaymentAmount.currency = Btc \<rparr>
                  else Inl (ValidationError ''InvalidBtcPaymentAmountError'')
              | _ \<Rightarrow> Inl (ValidationError ''InvalidBtcPaymentAmountError'')),
       checkedToUsdPaymentAmount =
         (\<lambda>n. case n of
                Finite r \<Rightarrow>
                  if 0 < r \<and> of_int \<lfloor>r\<rfloor> = r
                  then Inr \<lparr> PaymentAmount.amount = \<lfloor>r\<rfloor>, PaymentAmount.currency = Usd \<rparr>
                  else Inl (ValidationError ''InvalidUsdPaymentAmountError'')
              | _ \<Rightarrow> Inl (ValidationError ''InvalidUsdPaymentAmountError'')),
       parseFinalHopsFromInvoice = (\<lambda>i. []),
       generateIntraLedgerHash = ''intraledgerhash01'',
       now = 1660000000000 \<rparr>"

definition ex_config :: LightningPaymentFlowBuilderConfig where
  "ex_config = \<lparr> LightningPaymentFlowBuilderConfig.localNodeIds = [''localnode''],
                 LightningPaymentFlowBuilderConfig.flaggedPubkeys = [] \<rparr>"

definition ex_invoice :: "Pubkey option \<Rightarrow> int option \<Rightarrow> LnInvoice" where
  "ex_invoice dest sats =
     \<lparr> destination = dest,
       LnInvoice.paymentHash = ''paymenthash01'',
       paymentAmount = map_option (\<lambda>n. \<lparr> PaymentAmount.amount = n, PaymentAmount.currency = Btc \<rparr>) sats,
       description = ''memo'' \<rparr>"

definition ex_wallet :: "WalletId \<Rightarrow> WalletCurrency \<Rightarrow> WalletDescriptor" where
  "ex_wallet w c = \<lparr> id' = w, WalletDescriptor.currency = c, accountId = ''account-'' @ w \<rparr>"

definition ex_recipient :: "WalletId \<Rightarrow> WalletCurrency \<Rightarrow> int option \<Rightarrow> RecipientWalletArgs" where
  "ex_recipient w c cents =
     \<lparr> id' = w, WalletDescriptor.currency = c, accountId = ''account-'' @ w,
       userId = ''user-'' @ w, pubkey = None,
       RecipientWalletArgs.usdPaymentAmount =
         map_option (\<lambda>n. \<lparr> PaymentAmount.amount = n, PaymentAmount.currency = Usd \<rparr>) cents,
       username = None \<rparr>"

definition ex_senderState :: "number option \<Rightarrow> LPFBWithSenderWalletState" where
  "ex_senderState unchecked =
     \<lparr> LightningPaymentFlowBuilderConfig.localNodeIds = [''localnode''],
       LightningPaymentFlowBuilderConfig.flaggedPubkeys = [],
       LPFBWithInvoiceState.settlementMethod = IntraLedger,
       LPFBWithInvoiceState.btcProtocolAndBankFee =
         Some \<lparr> PaymentAmount.amount = 0, PaymentAmount.currency = Btc \<rparr>,
       LPFBWithInvoiceState.usdProtocolAndBankFee =
         Some \<lparr> PaymentAmount.amount = 0, PaymentAmount.currency = Usd \<rparr>,
       LPFBWithInvoiceState.paymentInitiationMethod = InitiatedIntraLedger,
       LPFBWithInvoiceState.paymentHash = None,
       LPFBWithInvoiceState.intraLedgerHash = Some ''intraledgerhash01'',
       LPFBWithInvoiceState.btcPaymentAmount =
         Some \<lparr> PaymentAmount.amount = 0, PaymentAmount.currency = Btc \<rparr>,
       LPFBWithInvoiceState.inputAmount = Some 0,
       LPFBWithInvoiceState.uncheckedAmount = unchecked,
       LPFBWithInvoiceState.descriptionFromInvoice = ''memo'',
       LPFBWithInvoiceState.skipProbeForDestination = False,
       LPFBWithSenderWalletState.senderWalletId = ''w1'',
       LPFBWithSenderWalletState.senderWalletCurrency = Btc,
       LPFBWithSenderWalletState.senderAccountId = ''account-w1'',
       LPFBWithSenderWalletState.usdPaymentAmount = None \<rparr>"

definition ex_rateSource :: "int \<Rightarrow> RateSource" where
  "ex_rateSource satsPerCent =
     \<lparr> usdFromBtc = (\<lambda>b. Inr \<lparr> PaymentAmount.amount = PaymentAmount.amount b div satsPerCent,
                                  PaymentAmount.currency = Usd \<rparr>),
       btcFromUsd = (\<lambda>u. Inr \<lparr> PaymentAmount.amount = PaymentAmount.amount u * satsPerCent,
                                  PaymentAmount.currency = Btc \<rparr>) \<rparr>"

definition ex_failingRateSource :: RateSource where
  "ex_failingRateSource =
     \<lparr> usdFromBtc = (\<lambda>b. Inl (DealerPriceServiceError ''unavailable'')),
       btcFromUsd = (\<lambda>u. Inl (DealerPriceServiceError ''unavailable'')) \<rparr>"

definition ex_rates :: WithConversionArgs where
  "ex_rates = \<lparr> hedgeBuyUsd = ex_rateSource 49, hedgeSellUsd = ex_rateSource 51,
                mid = ex_rateSource 50 \<rparr>"

definition ex_failingRates :: WithConversionArgs where
  "ex_failingRates = \<lparr> hedgeBuyUsd = ex_failingRateSource, hedgeSellUsd = ex_failingRateSource,
                       mid = ex_failingRateSource \<rparr>"

definition ex_recipientState :: LPFBWithRecipientWalletState where
  "ex_recipientState =
     \<lparr> LightningPaymentFlowBuilderConfig.localNodeIds = [''localnode''],
       LightningPaymentFlowBuilderConfig.flaggedPubkeys = [],
       LPFBWithInvoiceState.settlementMethod = Lightning,
       LPFBWithInvoiceState.btcProtocolAndBankFee =
         Some \<lparr> PaymentAmount.amount = 51, PaymentAmount.currency = Btc \<rparr>,
       LPFBWithInvoiceState.usdProtocolAndBankFee =
         Some \<lparr> PaymentAmount.amount = 2, PaymentAmount.currency = Usd \<rparr>,
       LPFBWithInvoiceState.paymentInitiationMethod = InitiatedLightning,
       LPFBWithInvoiceState.paymentHash = Some ''paymenthash01'',
       LPFBWithInvoiceState.intraLedgerHash = None,
       LPFBWithInvoiceState.btcPaymentAmount =
         Some \<lparr> PaymentAmount.amount = 10000, PaymentAmount.currency = Btc \<rparr>,
       LPFBWithInvoiceState.inputAmount = Some 10000,
       LPFBWithInvoiceState.uncheckedAmount = None,
       LPFBWithInvoiceState.descriptionFromInvoice = ''memo'',
       LPFBWithInvoiceState.skipProbeForDestination = False,
       LPFBWithSenderWalletState.senderWalletId = ''w1'',
       LPFBWithSenderWalletState.senderWalletCurrency = Btc,
       LPFBWithSenderWalletState.senderAccountId = ''account-w1'',
       LPFBWithSenderWalletState.usdPaymentAmount =
         Some \<lparr> PaymentAmount.amount = 200, PaymentAmount.currency = Usd \<rparr>,
       LPFBWithRecipientWalletState.recipientWalletId = None,
       LPFBWithRecipientWalletState.recipientWalletCurrency = None,
       LPFBWithRecipientWalletState.recipientPubkey = None,
       LPFBWithRecipientWalletState.recipientAccountId = None,
       LPFBWithRecipientWalletState.recipientUsername = None,
       LPFBWithRecipientWalletState.recipientUserId = None \<rparr>"

section \<open>The hash fields of a stage\<close>

text \<open>
  The two hash fields of the state a stage object closes over (none for the error stage
  and for a conversion that failed), used to follow them along a chain of calls.
\<close>

fun stageHashes :: "stage \<Rightarrow> (PaymentHash option \<times> IntraLedgerHash option) option" where
  "stageHashes (LPFBWithInvoice state) =
     Some (LPFBWithInvoiceState.paymentHash state, LPFBWithInvoiceState.intraLedgerHash state)"
| "stageHashes (LPFBWithSenderWallet state) =
     Some (LPFBWithInvoiceState.paymentHash state, LPFBWithInvoiceState.intraLedgerHash state)"
| "stageHashes (LPFBWithRecipientWallet state) =
     Some (LPFBWithInvoiceState.paymentHash state, LPFBWithInvoiceState.intraLedgerHash state)"
| "stageHashes (LPFBWithConversion (Inr state)) =
     Some (LPFBWithConversionState.paymentHash state, LPFBWithConversionState.intraLedgerHash state)"
| "stageHashes (LPFBWithConversion (Inl e)) = None"
| "stageHashes (LPFBWithError e) = None"

definition carries :: "PaymentHash option \<Rightarrow> IntraLedgerHash option \<Rightarrow> stage \<Rightarrow> bool" where
  "carries ph ih s = (case stageHashes s of None \<Rightarrow> True | Some p \<Rightarrow> p = (ph, ih))"

section \<open>Unfolding the builder on the examples\<close>

lemmas builder_defs =
  withoutInvoice_def withInvoice_def withNoAmountInvoice_def settlementMethodFromDestination_def
  skipProbeFromInvoice_def
  LPFBWithInvoice_withSenderWallet_def feeOrMax_def
  LPFBWithSenderWallet_withoutRecipientWallet_def LPFBWithSenderWallet_withRecipientWallet_def
  noRecipient_def LPFBWithRecipientWallet_withConversion_def noConversionRequired_def
  updatedStateFromBtcPaymentAmount_def updatedStateFromUsdPaymentAmount_def withAmounts_def
  LPFBWithConversion_withoutRoute_def LPFBWithConversion_withRoute_def
  paymentFromState_def paymentFlowWith_def flowOrError_def held_def
  truthy_opt_number_def truthy_opt_bigint_def truthy_opt_string_def
  LPFBWithInvoiceState.defs LPFBWithSenderWalletState.defs LPFBWithRecipientWalletState.defs
  LPFBWithConversionState.defs LPFBWithRouteState.defs

lemmas example_defs =
  ex_env_def ex_config_def ex_wallet_def ex_recipient_def ex_rates_def ex_rateSource_def
  ex_priceRatio_def ex_invoice_def

section \<open>Properties of the limits checker\<close>

text \<open>
  C8 (limits boundary): with configured ceiling \<open>L\<close> and normalised outgoing volume
  \<open>V\<close>, each of the three checks returns the sentinel \<open>True\<close> for a requested amount
  of exactly \<open>L - V\<close> and its own limits-exceeded error for \<open>L - V + 1\<close>.
\<close>

theorem limits_boundary:
  assumes vol: "volumeInUsdAmount priceRatio wv = Inr vol" "PaymentAmount.amount vol = V"
    and req: "PaymentAmount.amount exact = L - V" "PaymentAmount.amount over = L - V + 1"
  shows
   "(\<forall>lim. paymentAmountFromNumber env (intraLedgerLimit accountLimits) Usd = Inr lim
        \<and> PaymentAmount.amount lim = L \<longrightarrow>
      checkIntraledger env accountLimits priceRatio \<lparr> NewLimiterCheckInputs.amount = exact, walletVolume = wv \<rparr> = Inr True
      \<and> checkIntraledger env accountLimits priceRatio \<lparr> NewLimiterCheckInputs.amount = over, walletVolume = wv \<rparr>
          = Inl (IntraledgerLimitsExceededError (''Cannot transfer more than ''
                   @ numberToString env (intraLedgerLimit accountLimits) @ '' cents in 24 hours'')))
  \<and> (\<forall>lim. paymentAmountFromNumber env (withdrawalLimit accountLimits) Usd = Inr lim
        \<and> PaymentAmount.amount lim = L \<longrightarrow>
      checkWithdrawal env accountLimits priceRatio \<lparr> NewLimiterCheckInputs.amount = exact, walletVolume = wv \<rparr> = Inr True
      \<and> checkWithdrawal env accountLimits priceRatio \<lparr> NewLimiterCheckInputs.amount = over, walletVolume = wv \<rparr>
          = Inl (WithdrawalLimitsExceededError (''Cannot transfer more than ''
                   @ numberToString env (withdrawalLimit accountLimits) @ '' cents in 24 hours'')))
  \<and> (\<forall>lim. paymentAmountFromNumber env (threshold twoFALimits) Usd = Inr lim
        \<and> PaymentAmount.amount lim = L \<longrightarrow>
      checkTwoFA env twoFALimits priceRatio \<lparr> NewLimiterCheckInputs.amount = exact, walletVolume = wv \<rparr> = Inr True
      \<and> checkTwoFA env twoFALimits priceRatio \<lparr> NewLimiterCheckInputs.amount = over, walletVolume = wv \<rparr>
          = Inl TwoFALimitsExceededError)"
  using vol req
  by (simp add: checkIntraledger_def checkWithdrawal_def checkTwoFA_def Let_def)

theorem limits_boundary_witness:
  "checkIntraledger ex_limitsEnv \<lparr> intraLedgerLimit = Finite 100000, withdrawalLimit = Finite 100000 \<rparr> ex_priceRatio
      \<lparr> NewLimiterCheckInputs.amount = \<lparr> PaymentAmount.amount = 99000, PaymentAmount.currency = Usd \<rparr>,
        walletVolume = \<lparr> outgoingBaseAmount = \<lparr> PaymentAmount.amount = 50000, PaymentAmount.currency = Btc \<rparr> \<rparr> \<rparr> = Inr True
   \<and> checkWithdrawal ex_limitsEnv \<lparr> intraLedgerLimit = Finite 100000, withdrawalLimit = Finite 100000 \<rparr> ex_priceRatio
      \<lparr> NewLimiterCheckInputs.amount = \<lparr> PaymentAmount.amount = 99001, PaymentAmount.currency = Usd \<rparr>,
        walletVolume = \<lparr> outgoingBaseAmount = \<lparr> PaymentAmount.amount = 50000, PaymentAmount.currency = Btc \<rparr> \<rparr> \<rparr>
       = Inl (WithdrawalLimitsExceededError ''Cannot transfer more than 100000 cents in 24 hours'')
   \<and> checkTwoFA ex_limitsEnv \<lparr> threshold = Finite 100000 \<rparr> ex_priceRatio
      \<lparr> NewLimiterCheckInputs.amount = \<lparr> PaymentAmount.amount = 99001, PaymentAmount.currency = Usd \<rparr>,
        walletVolume = \<lparr> outgoingBaseAmount = \<lparr> PaymentAmount.amount = 50000, PaymentAmount.currency = Btc \<rparr> \<rparr> \<rparr>
       = Inl TwoFALimitsExceededError"
proof -
  have v: "volumeInUsdAmount ex_priceRatio \<lparr> outgoingBaseAmount = \<lparr> PaymentAmount.amount = 50000, PaymentAmount.currency = Btc \<rparr> \<rparr>
             = Inr \<lparr> PaymentAmount.amount = 1000, PaymentAmount.currency = Usd \<rparr>"
    by (simp add: volumeInUsdAmount_def ex_priceRatio_def)
  have l: "paymentAmountFromNumber ex_limitsEnv (Finite 100000) Usd = Inr \<lparr> PaymentAmount.amount = 100000, PaymentAmount.currency = Usd \<rparr>"
    by (simp add: ex_limitsEnv_def)
  have s: "numberToString ex_limitsEnv (Finite 100000) = ''100000''"
    by (simp add: ex_limitsEnv_def)
  show ?thesis
    using limits_boundary [where priceRatio = ex_priceRatio and env = ex_limitsEnv
        and wv = "\<lparr> outgoingBaseAmount = \<lparr> PaymentAmount.amount = 50000, PaymentAmount.currency = Btc \<rparr> \<rparr>"
        and vol = "\<lparr> PaymentAmount.amount = 1000, PaymentAmount.currency = Usd \<rparr>" and V = 1000 and L = 100000
        and exact = "\<lparr> PaymentAmount.amount = 99000, PaymentAmount.currency = Usd \<rparr>"
        and over = "\<lparr> PaymentAmount.amount = 99001, PaymentAmount.currency = Usd \<rparr>"
        and accountLimits = "\<lparr> intraLedgerLimit = Finite 100000, withdrawalLimit = Finite 100000 \<rparr>"
        and twoFALimits = "\<lparr> threshold = Finite 100000 \<rparr>", OF v]
    by (simp add: l s)
qed

section \<open>Properties of the \<^verbatim>\<open>WithSenderWallet\<close> stage\<close>

text \<open>
  C5 (self-payment rejection): on every \<^verbatim>\<open>WithSenderWallet\<close> state and for every argument
  record, \<^verbatim>\<open>withRecipientWallet\<close> yields the self-payment error when the recipient wallet
  id equals the sender wallet id, whatever the other fields are.
\<close>

theorem self_payment_rejected:
  assumes "id' args = LPFBWithSenderWalletState.senderWalletId state"
  shows "LPFBWithSenderWallet_withRecipientWallet state args = LPFBWithError SelfPaymentError
       \<and> invoke env (LPFBWithSenderWallet state) (WithRecipientWallet args)
           = Returns (VStage (LPFBWithError SelfPaymentError))"
  using assms by (simp add: LPFBWithSenderWallet_withRecipientWallet_def)

theorem self_payment_rejected_witness:
  "invoke ex_env (LPFBWithSenderWallet (ex_senderState (Some (Finite 5000))))
      (WithRecipientWallet (ex_recipient ''w1'' Usd (Some 100)))
     = Returns (VStage (LPFBWithError SelfPaymentError))"
proof -
  have "id' (ex_recipient ''w1'' Usd (Some 100))
          = LPFBWithSenderWalletState.senderWalletId (ex_senderState (Some (Finite 5000)))"
    by (simp add: ex_recipient_def ex_senderState_def)
  from self_payment_rejected [OF this] show ?thesis by simp
qed

text \<open>
  C10 (the consistency check tests truthiness): with a pending unchecked amount of \<open>0\<close>
  and a USD recipient other than the sender, \<^verbatim>\<open>withRecipientWallet\<close> succeeds when an
  explicit USD amount is given and yields the builder-state error when none is given.
\<close>

theorem truthiness_of_zero_unchecked_amount:
  assumes "LPFBWithInvoiceState.uncheckedAmount state = Some (Finite 0)"
    and "WalletDescriptor.currency args = Usd"
    and "id' args \<noteq> LPFBWithSenderWalletState.senderWalletId state"
  shows "(\<forall>u. RecipientWalletArgs.usdPaymentAmount args = Some u \<longrightarrow>
            LPFBWithSenderWallet_withRecipientWallet state args
              = LPFBWithRecipientWallet
                  (LPFBWithSenderWalletState.extend
                    (state\<lparr> LPFBWithSenderWalletState.usdPaymentAmount := Some u \<rparr>)
                    (LPFBWithRecipientWalletState.fields
                      (Some (id' args)) (Some Usd) (pubkey args)
                      (Some (accountId args)) (username args) (Some (userId args)))))
       \<and> (RecipientWalletArgs.usdPaymentAmount args = None \<longrightarrow>
            LPFBWithSenderWallet_withRecipientWallet state args
              = LPFBWithError (InvalidLightningPaymentFlowBuilderStateError
                  ''withRecipientWallet incorrect combination of usdPaymentAmount and uncheckedAmount''))"
  using assms
  by (simp add: LPFBWithSenderWallet_withRecipientWallet_def truthy_opt_number_def)

theorem truthiness_of_zero_unchecked_amount_witness:
  "(\<exists>st. LPFBWithSenderWallet_withRecipientWallet (ex_senderState (Some (Finite 0)))
            (ex_recipient ''w2'' Usd (Some 100)) = LPFBWithRecipientWallet st)
   \<and> LPFBWithSenderWallet_withRecipientWallet (ex_senderState (Some (Finite 0)))
            (ex_recipient ''w2'' Usd None)
       = LPFBWithError (InvalidLightningPaymentFlowBuilderStateError
           ''withRecipientWallet incorrect combination of usdPaymentAmount and uncheckedAmount'')"
proof -
  have a: "LPFBWithInvoiceState.uncheckedAmount (ex_senderState (Some (Finite 0))) = Some (Finite 0)"
    by (simp add: ex_senderState_def)
  have b: "WalletDescriptor.currency (ex_recipient ''w2'' Usd c) = Usd" for c
    by (simp add: ex_recipient_def)
  have c: "id' (ex_recipient ''w2'' Usd c)
             \<noteq> LPFBWithSenderWalletState.senderWalletId (ex_senderState (Some (Finite 0)))" for c
    by (simp add: ex_recipient_def ex_senderState_def)
  have d: "RecipientWalletArgs.usdPaymentAmount (ex_recipient ''w2'' Usd (Some 100))
             = Some \<lparr> PaymentAmount.amount = 100, PaymentAmount.currency = Usd \<rparr>"
    by (simp add: ex_recipient_def)
  have e: "RecipientWalletArgs.usdPaymentAmount (ex_recipient ''w2'' Usd None) = None"
    by (simp add: ex_recipient_def)
  from truthiness_of_zero_unchecked_amount [OF a b c, of "Some 100"] d
  have "\<exists>st. LPFBWithSenderWallet_withRecipientWallet (ex_senderState (Some (Finite 0)))
            (ex_recipient ''w2'' Usd (Some 100)) = LPFBWithRecipientWallet st"
    by blast
  moreover from truthiness_of_zero_unchecked_amount [OF a b c, of None] e
  have "LPFBWithSenderWallet_withRecipientWallet (ex_senderState (Some (Finite 0)))
            (ex_recipient ''w2'' Usd None)
       = LPFBWithError (InvalidLightningPaymentFlowBuilderStateError
           ''withRecipientWallet incorrect combination of usdPaymentAmount and uncheckedAmount'')"
    by blast
  ultimately show ?thesis by blast
qed

section \<open>Properties of the initial stage\<close>

lemma settlementMethodFromDestination_local:
  assumes "dest = None \<or> (\<exists>d. dest = Some d \<and> d \<in> set (LightningPaymentFlowBuilderConfig.localNodeIds config))"
  shows "settlementMethodFromDestination env config dest
           = \<lparr> SettlementAndFees.settlementMethod = IntraLedger,
               SettlementAndFees.btcProtocolAndBankFee = Some (btc (intraLedgerFees (LnFees env))),
               SettlementAndFees.usdProtocolAndBankFee = Some (usd (intraLedgerFees (LnFees env))) \<rparr>"
  using assms by (auto simp: settlementMethodFromDestination_def)

lemma settlementMethodFromDestination_remote:
  assumes "dest = Some d" "d \<notin> set (LightningPaymentFlowBuilderConfig.localNodeIds config)"
  shows "settlementMethodFromDestination env config dest
           = \<lparr> SettlementAndFees.settlementMethod = Lightning,
               SettlementAndFees.btcProtocolAndBankFee = None,
               SettlementAndFees.usdProtocolAndBankFee = None \<rparr>"
  using assms by (simp add: settlementMethodFromDestination_def)

text \<open>
  C3 (settlement resolution): for every invoice, the settlement method resolved from its
  destination is \<open>IntraLedger\<close>, with the intra-ledger fee pair, when the destination is
  undefined or one of the configured local node ids, and \<open>Lightning\<close>, with no fee,
  otherwise. \<^verbatim>\<open>withNoAmountInvoice\<close> puts that resolution into the stage it returns, and so
  does \<^verbatim>\<open>withInvoice\<close> whenever it returns a stage (it returns the error stage for an
  invoice without amount); \<^verbatim>\<open>withoutInvoice\<close> always resolves \<open>IntraLedger\<close> with the
  fee pair.
\<close>

theorem settlement_resolution:
  assumes loc: "isLocal \<longleftrightarrow>
      (destination invoice = None
        \<or> (\<exists>d. destination invoice = Some d
              \<and> d \<in> set (LightningPaymentFlowBuilderConfig.localNodeIds config)))"
  shows "settlementMethodFromDestination env config (destination invoice)
           = \<lparr> SettlementAndFees.settlementMethod = (if isLocal then IntraLedger else Lightning),
               SettlementAndFees.btcProtocolAndBankFee
                 = (if isLocal then Some (btc (intraLedgerFees (LnFees env))) else None),
               SettlementAndFees.usdProtocolAndBankFee
                 = (if isLocal then Some (usd (intraLedgerFees (LnFees env))) else None) \<rparr>
       \<and> (paymentAmount invoice = None \<longrightarrow>
            withInvoice env config invoice = LPFBWithError
              (InvalidLightningPaymentFlowBuilderStateError ''withInvoice - paymentAmount missing''))
       \<and> (\<forall>pa. paymentAmount invoice = Some pa \<longrightarrow>
            (\<exists>st. withInvoice env config invoice = LPFBWithInvoice st
               \<and> LPFBWithInvoiceState.settlementMethod st
                   = (if isLocal then IntraLedger else Lightning)
               \<and> LPFBWithInvoiceState.btcProtocolAndBankFee st
                   = (if isLocal then Some (btc (intraLedgerFees (LnFees env))) else None)
               \<and> LPFBWithInvoiceState.usdProtocolAndBankFee st
                   = (if isLocal then Some (usd (intraLedgerFees (LnFees env))) else None)))
       \<and> (\<exists>st. withNoAmountInvoice env config invoice unchecked = LPFBWithInvoice st
               \<and> LPFBWithInvoiceState.settlementMethod st
                   = (if isLocal then IntraLedger else Lightning)
               \<and> LPFBWithInvoiceState.btcProtocolAndBankFee st
                   = (if isLocal then Some (btc (intraLedgerFees (LnFees env))) else None)
               \<and> LPFBWithInvoiceState.usdProtocolAndBankFee st
                   = (if isLocal then Some (usd (intraLedgerFees (LnFees env))) else None))
       \<and> (\<exists>st. withoutInvoice env config unchecked descr = LPFBWithInvoice st
               \<and> LPFBWithInvoiceState.settlementMethod st = IntraLedger
               \<and> LPFBWithInvoiceState.btcProtocolAndBankFee st
                   = Some (btc (intraLedgerFees (LnFees env)))
               \<and> LPFBWithInvoiceState.usdProtocolAndBankFee st
                   = Some (usd (intraLedgerFees (LnFees env))))"
proof (cases isLocal)
  case True
  with loc have "settlementMethodFromDestination env config (destination invoice)
           = \<lparr> SettlementAndFees.settlementMethod = IntraLedger,
               SettlementAndFees.btcProtocolAndBankFee = Some (btc (intraLedgerFees (LnFees env))),
               SettlementAndFees.usdProtocolAndBankFee = Some (usd (intraLedgerFees (LnFees env))) \<rparr>"
    by (intro settlementMethodFromDestination_local) simp
  with True show ?thesis
    by (simp add: withInvoice_def withNoAmountInvoice_def withoutInvoice_def
        settlementMethodFromDestination_local)
next
  case False
  with loc obtain d where "destination invoice = Some d"
      "d \<notin> set (LightningPaymentFlowBuilderConfig.localNodeIds config)"
    by (cases "destination invoice") auto
  then have "settlementMethodFromDestination env config (destination invoice)
           = \<lparr> SettlementAndFees.settlementMethod = Lightning,
               SettlementAndFees.btcProtocolAndBankFee = None,
               SettlementAndFees.usdProtocolAndBankFee = None \<rparr>"
    by (rule settlementMethodFromDestination_remote)
  with False show ?thesis
    by (simp add: withInvoice_def withNoAmountInvoice_def withoutInvoice_def
        settlementMethodFromDestination_local)
qed

theorem settlement_resolution_witness:
  "(\<exists>st. withInvoice ex_env ex_config (ex_invoice (Some ''localnode'') (Some 1000)) = LPFBWithInvoice st
        \<and> LPFBWithInvoiceState.settlementMethod st = IntraLedger
        \<and> LPFBWithInvoiceState.btcProtocolAndBankFee st
            = Some \<lparr> PaymentAmount.amount = 0, PaymentAmount.currency = Btc \<rparr>)
   \<and> (\<exists>st. withNoAmountInvoice ex_env ex_config (ex_invoice (Some ''remotenode'') None) (Finite 1000)
            = LPFBWithInvoice st
        \<and> LPFBWithInvoiceState.settlementMethod st = Lightning
        \<and> LPFBWithInvoiceState.btcProtocolAndBankFee st = None)"
proof -
  have l: "True \<longleftrightarrow>
      (destination (ex_invoice (Some ''localnode'') (Some 1000)) = None
        \<or> (\<exists>d. destination (ex_invoice (Some ''localnode'') (Some 1000)) = Some d
              \<and> d \<in> set (LightningPaymentFlowBuilderConfig.localNodeIds ex_config)))"
    by (simp add: ex_invoice_def ex_config_def)
  have r: "False \<longleftrightarrow>
      (destination (ex_invoice (Some ''remotenode'') None) = None
        \<or> (\<exists>d. destination (ex_invoice (Some ''remotenode'') None) = Some d
              \<and> d \<in> set (LightningPaymentFlowBuilderConfig.localNodeIds ex_config)))"
    by (simp add: ex_invoice_def ex_config_def)
  have p: "paymentAmount (ex_invoice (Some ''localnode'') (Some 1000))
             = Some \<lparr> PaymentAmount.amount = 1000, PaymentAmount.currency = Btc \<rparr>"
    by (simp add: ex_invoice_def)
  have f: "btc (intraLedgerFees (LnFees ex_env))
             = \<lparr> PaymentAmount.amount = 0, PaymentAmount.currency = Btc \<rparr>"
    by (simp add: ex_env_def)
  from settlement_resolution [OF l, of ex_env] p f
  have "\<exists>st. withInvoice ex_env ex_config (ex_invoice (Some ''localnode'') (Some 1000)) = LPFBWithInvoice st
        \<and> LPFBWithInvoiceState.settlementMethod st = IntraLedger
        \<and> LPFBWithInvoiceState.btcProtocolAndBankFee st
            = Some \<lparr> PaymentAmount.amount = 0, PaymentAmount.currency = Btc \<rparr>"
    by auto
  moreover from settlement_resolution [OF r, of ex_env "Finite 1000"]
  have "\<exists>st. withNoAmountInvoice ex_env ex_config (ex_invoice (Some ''remotenode'') None) (Finite 1000)
            = LPFBWithInvoice st
        \<and> LPFBWithInvoiceState.settlementMethod st = Lightning
        \<and> LPFBWithInvoiceState.btcProtocolAndBankFee st = None"
    by auto
  ultimately show ?thesis by blast
qed

section \<open>Properties of the error stage\<close>

lemma invokeWithError_sticky:
  "invokeWithError e c = Returns (if returnsStage c then VStage (LPFBWithError e) else VError e)"
  by (cases c)
    (simp_all add: LPFBWithError_withSenderWallet_def LPFBWithError_withoutRecipientWallet_def
      LPFBWithError_withRecipientWallet_def LPFBWithError_withConversion_def
      LPFBWithError_withRoute_def LPFBWithError_withoutRoute_def
      LPFBWithError_skipProbeForDestination_def LPFBWithError_isIntraLedger_def
      LPFBWithError_isTradeIntraAccount_def LPFBWithError_btcPaymentAmount_def
      LPFBWithError_usdPaymentAmount_def)

lemma held_sticky:
  "held (LPFBWithError e) (if returnsStage c then VStage (LPFBWithError e) else VError e)
     = LPFBWithError e"
  by (simp add: held_def)

lemma invokeWithConversion_failed:
  assumes "\<not> returnsStage c"
  shows "invokeWithConversion env (Inl e) c = Returns (VError e)"
  using assms
  by (cases c)
    (simp_all add: flowOrError_def boolOrError_def amountOrError_def
      LPFBWithConversion_withRoute_def LPFBWithConversion_withoutRoute_def
      LPFBWithConversion_btcPaymentAmount_def LPFBWithConversion_usdPaymentAmount_def
      LPFBWithConversion_skipProbeForDestination_def LPFBWithConversion_isIntraLedger_def
      LPFBWithConversion_isTradeIntraAccount_def)

lemma run_error_stage:
  "run env (LPFBWithError e) cs
     = Returns (LPFBWithError e,
                map (\<lambda>c. if returnsStage c then VStage (LPFBWithError e) else VError e) cs)"
  by (induction cs) (simp_all add: invokeWithError_sticky held_sticky del: returnsStage.simps)

lemma run_failed_conversion:
  assumes "\<forall>c \<in> set cs. \<not> returnsStage c"
  shows "run env (LPFBWithConversion (Inl e)) cs
     = Returns (LPFBWithConversion (Inl e), map (\<lambda>c. VError e) cs)"
  using assms
  by (induction cs) (simp_all add: invokeWithConversion_failed held_def)

lemma invokeWithConversion_failed_sync:
  assumes "returnsStage c"
  shows "invokeWithConversion env (Inl e) c = Throws (TypeError ''not a function'')"
  using assms by (cases c) (simp_all add: notAFunction_def)

text \<open>
  C1 (sticky error propagation), as the code has it: on the error stage entered with error
  \<open>e\<close> (a validation, self-payment or builder-state failure), any chain of calls of the
  eleven methods, with any arguments, in any order and of any length, leaves the error
  stage for \<open>e\<close> in the caller's hands and returns \<open>e\<close> at every call: as the error
  stage for \<open>e\<close> from the four synchronous methods, as \<open>e\<close> itself from the seven
  asynchronous ones. A conversion that failed with \<open>e\<close> (a dealer-price failure) does not
  enter the error stage: it stays behind the promise of the \<^verbatim>\<open>WithConversion\<close> stage,
  whose seven methods, the asynchronous ones, all return \<open>e\<close>, again along any chain;
  the four synchronous methods are not methods of that stage, and calling one throws.
\<close>

theorem sticky_error_propagation:
  "run env (LPFBWithError e) cs
     = Returns (LPFBWithError e,
                map (\<lambda>c. if returnsStage c then VStage (LPFBWithError e) else VError e) cs)
   \<and> ((\<forall>c \<in> set cs. \<not> returnsStage c) \<longrightarrow>
        run env (LPFBWithConversion (Inl e)) cs
          = Returns (LPFBWithConversion (Inl e), map (\<lambda>c. VError e) cs))
   \<and> (returnsStage c \<longrightarrow>
        invoke env (LPFBWithConversion (Inl e)) c = Throws (TypeError ''not a function''))"
  using run_error_stage run_failed_conversion invokeWithConversion_failed_sync by simp

theorem sticky_error_propagation_witness:
  "run ex_env (LPFBWithError SelfPaymentError)
      [WithConversion ex_rates, IsIntraLedger, WithSenderWallet (ex_wallet ''w1'' Btc), WithoutRoute]
     = Returns (LPFBWithError SelfPaymentError,
         [VStage (LPFBWithError SelfPaymentError), VError SelfPaymentError,
          VStage (LPFBWithError SelfPaymentError), VError SelfPaymentError])
   \<and> LPFBWithRecipientWallet_withConversion ex_env
        (ex_recipientState\<lparr> LPFBWithSenderWalletState.usdPaymentAmount := None \<rparr>) ex_failingRates
     = LPFBWithConversion (Inl (DealerPriceServiceError ''unavailable''))
   \<and> run ex_env (LPFBWithConversion (Inl (DealerPriceServiceError ''unavailable'')))
        [WithoutRoute, IsIntraLedger, WithRoute ''node'' (RawRoute ''route'')]
     = Returns (LPFBWithConversion (Inl (DealerPriceServiceError ''unavailable'')),
         [VError (DealerPriceServiceError ''unavailable''),
          VError (DealerPriceServiceError ''unavailable''),
          VError (DealerPriceServiceError ''unavailable'')])
   \<and> invoke ex_env (LPFBWithConversion (Inl (DealerPriceServiceError ''unavailable'')))
        (WithConversion ex_rates)
     = Throws (TypeError ''not a function'')"
proof -
  have a: "\<forall>c \<in> set [WithoutRoute, IsIntraLedger, WithRoute ''node'' (RawRoute ''route'')].
             \<not> returnsStage c"
    by simp
  have b: "LPFBWithRecipientWallet_withConversion ex_env
        (ex_recipientState\<lparr> LPFBWithSenderWalletState.usdPaymentAmount := None \<rparr>) ex_failingRates
     = LPFBWithConversion (Inl (DealerPriceServiceError ''unavailable''))"
    by (simp add: LPFBWithRecipientWallet_withConversion_def noConversionRequired_def
        updatedStateFromBtcPaymentAmount_def ex_recipientState_def ex_failingRates_def
        ex_failingRateSource_def)
  from sticky_error_propagation [of ex_env SelfPaymentError
      "[WithConversion ex_rates, IsIntraLedger, WithSenderWallet (ex_wallet ''w1'' Btc), WithoutRoute]"]
  have c: "run ex_env (LPFBWithError SelfPaymentError)
      [WithConversion ex_rates, IsIntraLedger, WithSenderWallet (ex_wallet ''w1'' Btc), WithoutRoute]
     = Returns (LPFBWithError SelfPaymentError,
         [VStage (LPFBWithError SelfPaymentError), VError SelfPaymentError,
          VStage (LPFBWithError SelfPaymentError), VError SelfPaymentError])"
    by simp
  from sticky_error_propagation [of ex_env "DealerPriceServiceError ''unavailable''"
      "[WithoutRoute, IsIntraLedger, WithRoute ''node'' (RawRoute ''route'')]"] a
  have d: "run ex_env (LPFBWithConversion (Inl (DealerPriceServiceError ''unavailable'')))
        [WithoutRoute, IsIntraLedger, WithRoute ''node'' (RawRoute ''route'')]
     = Returns (LPFBWithConversion (Inl (DealerPriceServiceError ''unavailable'')),
         [VError (DealerPriceServiceError ''unavailable''),
          VError (DealerPriceServiceError ''unavailable''),
          VError (DealerPriceServiceError ''unavailable'')])"
    by simp
  from sticky_error_propagation [of ex_env "DealerPriceServiceError ''unavailable''" "[]"
      "WithConversion ex_rates"]
  have t: "invoke ex_env (LPFBWithConversion (Inl (DealerPriceServiceError ''unavailable'')))
        (WithConversion ex_rates)
     = Throws (TypeError ''not a function'')"
    by simp
  from b c d t show ?thesis by blast
qed

text \<open>
  The claim as worded fails after a dealer-price failure: the chain below reaches the
  \<^verbatim>\<open>WithConversion\<close> stage with a failed conversion, \<^verbatim>\<open>withoutRoute\<close> returns the error, and
  \<^verbatim>\<open>withSenderWallet\<close> on that stage throws instead of returning it.
\<close>

theorem sticky_error_after_dealer_failure_counterexample:
  "stageAfter ex_env (withoutInvoice ex_env ex_config (Finite 5000) ''memo'')
      [WithSenderWallet (ex_wallet ''w1'' Btc), WithRecipientWallet (ex_recipient ''w2'' Btc None),
       WithConversion ex_failingRates]
     = Some (LPFBWithConversion (Inl (DealerPriceServiceError ''unavailable'')))
   \<and> invoke ex_env (LPFBWithConversion (Inl (DealerPriceServiceError ''unavailable''))) WithoutRoute
     = Returns (VError (DealerPriceServiceError ''unavailable''))
   \<and> invoke ex_env (LPFBWithConversion (Inl (DealerPriceServiceError ''unavailable'')))
        (WithSenderWallet (ex_wallet ''w1'' Btc))
     = Throws (TypeError ''not a function'')
   \<and> invoke ex_env (LPFBWithConversion (Inl (DealerPriceServiceError ''unavailable'')))
        (WithSenderWallet (ex_wallet ''w1'' Btc))
     \<noteq> Returns (VStage (LPFBWithError (DealerPriceServiceError ''unavailable'')))"
  by (simp add: stageAfter_def builder_defs example_defs ex_failingRates_def
      ex_failingRateSource_def Let_def notAFunction_def)

section \<open>Properties of \<^verbatim>\<open>withConversion\<close>\<close>

text \<open>
  C7 (no-conversion shortcut): when no conversion is required and both amounts and both
  fees are present, \<^verbatim>\<open>withConversion\<close> returns the state with its creation time whatever
  the three rate sources are: any two argument records give the same stage, and that
  stage holds a resolved state, not an error.
\<close>

theorem no_conversion_shortcut:
  assumes "(LPFBWithSenderWalletState.senderWalletCurrency state = Btc
              \<and> LPFBWithInvoiceState.settlementMethod state = Lightning)
           \<or> Some (LPFBWithSenderWalletState.senderWalletCurrency state)
               = LPFBWithRecipientWalletState.recipientWalletCurrency state"
    and "LPFBWithInvoiceState.btcPaymentAmount state = Some b"
    and "LPFBWithSenderWalletState.usdPaymentAmount state = Some u"
    and "LPFBWithInvoiceState.btcProtocolAndBankFee state = Some bf"
    and "LPFBWithInvoiceState.usdProtocolAndBankFee state = Some uf"
  shows "LPFBWithRecipientWallet_withConversion env state args
           = LPFBWithConversion (Inr (withAmounts state (now env) b u bf uf))
       \<and> LPFBWithRecipientWallet_withConversion env state args
           = LPFBWithRecipientWallet_withConversion env state args'"
  using assms
  by (simp add: LPFBWithRecipientWallet_withConversion_def noConversionRequired_def)

theorem no_conversion_shortcut_witness:
  "LPFBWithRecipientWallet_withConversion ex_env ex_recipientState ex_failingRates
     = LPFBWithConversion (Inr (withAmounts ex_recipientState 1660000000000
         \<lparr> PaymentAmount.amount = 10000, PaymentAmount.currency = Btc \<rparr>
         \<lparr> PaymentAmount.amount = 200, PaymentAmount.currency = Usd \<rparr>
         \<lparr> PaymentAmount.amount = 51, PaymentAmount.currency = Btc \<rparr>
         \<lparr> PaymentAmount.amount = 2, PaymentAmount.currency = Usd \<rparr>))
   \<and> LPFBWithRecipientWallet_withConversion ex_env ex_recipientState ex_failingRates
     = LPFBWithRecipientWallet_withConversion ex_env ex_recipientState ex_rates"
proof -
  have a: "(LPFBWithSenderWalletState.senderWalletCurrency ex_recipientState = Btc
              \<and> LPFBWithInvoiceState.settlementMethod ex_recipientState = Lightning)
           \<or> Some (LPFBWithSenderWalletState.senderWalletCurrency ex_recipientState)
               = LPFBWithRecipientWalletState.recipientWalletCurrency ex_recipientState"
    by (simp add: ex_recipientState_def)
  have b: "LPFBWithInvoiceState.btcPaymentAmount ex_recipientState
             = Some \<lparr> PaymentAmount.amount = 10000, PaymentAmount.currency = Btc \<rparr>"
    by (simp add: ex_recipientState_def)
  have c: "LPFBWithSenderWalletState.usdPaymentAmount ex_recipientState
             = Some \<lparr> PaymentAmount.amount = 200, PaymentAmount.currency = Usd \<rparr>"
    by (simp add: ex_recipientState_def)
  have d: "LPFBWithInvoiceState.btcProtocolAndBankFee ex_recipientState
             = Some \<lparr> PaymentAmount.amount = 51, PaymentAmount.currency = Btc \<rparr>"
    by (simp add: ex_recipientState_def)
  have e: "LPFBWithInvoiceState.usdProtocolAndBankFee ex_recipientState
             = Some \<lparr> PaymentAmount.amount = 2, PaymentAmount.currency = Usd \<rparr>"
    by (simp add: ex_recipientState_def)
  have n: "now ex_env = 1660000000000"
    by (simp add: ex_env_def)
  show ?thesis
    using no_conversion_shortcut [OF a b c d e, of ex_env ex_failingRates ex_rates]
    unfolding n .
qed

section \<open>Where the code departs from its own documentation\<close>

lemma withSenderWallet_zero_amount:
  assumes "paymentAmount invoice = Some pa" "PaymentAmount.amount pa = 0"
  shows "invoke env (withInvoice env config invoice) (WithSenderWallet w)
           = Throws (Error ''withSenderWallet impossible'')"
  using assms
  by (simp add: withInvoice_def Let_def LPFBWithInvoice_withSenderWallet_def truthy_opt_bigint_def)

text \<open>When \<^verbatim>\<open>withSenderWallet\<close> throws: no unchecked amount, and no truthy input amount with a BTC amount.\<close>

lemma withSenderWallet_throws_iff:
  "(\<exists>x. LPFBWithInvoice_withSenderWallet env state w = Throws x)
     \<longleftrightarrow> LPFBWithInvoiceState.uncheckedAmount state = None
         \<and> \<not> (truthy_opt_bigint (LPFBWithInvoiceState.inputAmount state)
               \<and> LPFBWithInvoiceState.btcPaymentAmount state \<noteq> None)"
  by (auto simp: LPFBWithInvoice_withSenderWallet_def split: option.splits sum.splits)

text \<open>
  C4 (errors are values, never thrown): the claim fails on an invoice whose amount is
  zero. \<^verbatim>\<open>withInvoice\<close> accepts it (the amount is not \<^verbatim>\<open>null\<close>), and \<^verbatim>\<open>withSenderWallet\<close>
  on the resulting stage throws, because the bigint \<^verbatim>\<open>0n\<close> is falsy in
  \<^verbatim>\<open>inputAmount && btcPaymentAmount\<close>.
\<close>

theorem withSenderWallet_throws_on_zero_amount_invoice:
  "invoke ex_env (withInvoice ex_env ex_config (ex_invoice (Some ''remotenode'') (Some 0)))
      (WithSenderWallet (ex_wallet ''w1'' Btc))
     = Throws (Error ''withSenderWallet impossible'')"
  by (rule withSenderWallet_zero_amount [where pa = "\<lparr> PaymentAmount.amount = 0, PaymentAmount.currency = Btc \<rparr>"])
     (simp_all add: ex_invoice_def)

section \<open>The amount-consistency check of \<^verbatim>\<open>withRecipientWallet\<close>\<close>

text \<open>
  The check of \<^verbatim>\<open>withRecipientWallet\<close> in full: it compares the presence of the explicit
  USD amount with the truthiness of the unchecked amount, which is its presence unless the
  unchecked amount is \<open>0\<close> or \<open>NaN\<close>.
\<close>

lemma withRecipientWallet_state_error_iff:
  assumes "id' args \<noteq> LPFBWithSenderWalletState.senderWalletId state"
  shows "LPFBWithSenderWallet_withRecipientWallet state args
           = LPFBWithError (InvalidLightningPaymentFlowBuilderStateError
               ''withRecipientWallet incorrect combination of usdPaymentAmount and uncheckedAmount'')
         \<longleftrightarrow> WalletDescriptor.currency args = Usd
             \<and> (RecipientWalletArgs.usdPaymentAmount args \<noteq> None)
                = truthy_opt_number (LPFBWithInvoiceState.uncheckedAmount state)"
  using assms by (simp add: LPFBWithSenderWallet_withRecipientWallet_def)

lemma truthy_is_presence:
  assumes "\<forall>n. x = Some n \<longrightarrow> truthy_number n"
  shows "truthy_opt_number x = (x \<noteq> None)"
  using assms by (cases x) (simp_all add: truthy_opt_number_def)





section \<open>The hash fields along a chain of calls\<close>

lemma withSenderWallet_carries:
  assumes "carries ph ih (LPFBWithInvoice state)"
    and "LPFBWithInvoice_withSenderWallet env state w = Returns s"
  shows "carries ph ih s"
  using assms
  by (auto simp: LPFBWithInvoice_withSenderWallet_def carries_def LPFBWithInvoiceState.defs
      split: option.splits sum.splits if_splits)

lemma withoutRecipientWallet_carries:
  assumes "carries ph ih (LPFBWithSenderWallet state)"
  shows "carries ph ih (LPFBWithSenderWallet_withoutRecipientWallet state)"
  using assms
  by (simp add: LPFBWithSenderWallet_withoutRecipientWallet_def noRecipient_def carries_def
      LPFBWithSenderWalletState.defs)

lemma withRecipientWallet_carries:
  assumes "carries ph ih (LPFBWithSenderWallet state)"
  shows "carries ph ih (LPFBWithSenderWallet_withRecipientWallet state args)"
  using assms
  by (simp add: LPFBWithSenderWallet_withRecipientWallet_def carries_def
      LPFBWithSenderWalletState.defs)

lemma withAmounts_hashes:
  "LPFBWithConversionState.paymentHash (withAmounts state t b u bf uf)
     = LPFBWithInvoiceState.paymentHash state"
  "LPFBWithConversionState.intraLedgerHash (withAmounts state t b u bf uf)
     = LPFBWithInvoiceState.intraLedgerHash state"
  by (simp_all add: withAmounts_def)

lemma updatedStateFromBtcPaymentAmount_carries:
  assumes "carries ph ih (LPFBWithRecipientWallet state)"
  shows "carries ph ih (LPFBWithConversion (updatedStateFromBtcPaymentAmount env state lookup b bf))"
  using assms
  by (simp add: updatedStateFromBtcPaymentAmount_def carries_def withAmounts_hashes
      split: sum.splits)

lemma updatedStateFromUsdPaymentAmount_carries:
  assumes "carries ph ih (LPFBWithRecipientWallet state)"
  shows "carries ph ih (LPFBWithConversion (updatedStateFromUsdPaymentAmount env state lookup u uf))"
  using assms
  by (simp add: updatedStateFromUsdPaymentAmount_def carries_def withAmounts_hashes
      split: sum.splits)

lemma resolved_carries:
  assumes "carries ph ih (LPFBWithRecipientWallet state)"
  shows "carries ph ih (LPFBWithConversion (Inr (withAmounts state t b u bf uf)))"
  using assms by (simp add: carries_def withAmounts_hashes)

lemma error_carries: "carries ph ih (LPFBWithError e)"
  by (simp add: carries_def)

lemma withConversion_carries:
  assumes "carries ph ih (LPFBWithRecipientWallet state)"
  shows "carries ph ih (LPFBWithRecipientWallet_withConversion env state args)"
  unfolding LPFBWithRecipientWallet_withConversion_def Let_def
  by (simp add: updatedStateFromBtcPaymentAmount_carries [OF assms]
      updatedStateFromUsdPaymentAmount_carries [OF assms] resolved_carries [OF assms]
      error_carries split: option.splits bool.splits)

lemma invoke_carries:
  assumes "carries ph ih s" and "invoke env s c = Returns v"
  shows "carries ph ih (held s v)"
proof (cases s)
  case (LPFBWithInvoice state)
  with assms show ?thesis
    by (cases c) (auto simp: held_def notAFunction_def split: outcome.splits
        dest: withSenderWallet_carries)
next
  case (LPFBWithSenderWallet state)
  with assms show ?thesis
    by (cases c) (auto simp: held_def notAFunction_def
        intro: withoutRecipientWallet_carries withRecipientWallet_carries)
next
  case (LPFBWithRecipientWallet state)
  with assms show ?thesis
    by (cases c) (auto simp: held_def notAFunction_def intro: withConversion_carries)
next
  case (LPFBWithConversion p)
  with assms show ?thesis
    by (cases c) (auto simp: held_def notAFunction_def flowOrError_def boolOrError_def
        amountOrError_def split: sum.splits)
next
  case (LPFBWithError e)
  with assms show ?thesis
    by (cases c) (auto simp: held_def carries_def LPFBWithError_withSenderWallet_def
        LPFBWithError_withoutRecipientWallet_def LPFBWithError_withRecipientWallet_def
        LPFBWithError_withConversion_def)
qed

lemma run_carries:
  assumes "carries ph ih s" and "run env s cs = Returns (s', vs)"
  shows "carries ph ih s'"
  using assms
proof (induction cs arbitrary: s vs)
  case Nil
  then show ?case by simp
next
  case (Cons c cs)
  from Cons.prems(2) obtain v vs' where v: "invoke env s c = Returns v"
    and r: "run env (held s v) cs = Returns (s', vs')"
    by (auto split: outcome.splits)
  from invoke_carries [OF Cons.prems(1) v] r show ?case
    by (rule Cons.IH)
qed

lemma paymentFromState_hashes:
  assumes "paymentFromState state = Inr f"
  shows "PaymentFlow.paymentHash f
           = (if truthy_opt_string (LPFBWithConversionState.paymentHash state)
              then LPFBWithConversionState.paymentHash state else None)"
    and "PaymentFlow.intraLedgerHash f
           = (if truthy_opt_string (LPFBWithConversionState.paymentHash state)
              then None else LPFBWithConversionState.intraLedgerHash state)"
    and "truthy_opt_string (LPFBWithConversionState.paymentHash state)
           \<or> truthy_opt_string (LPFBWithConversionState.intraLedgerHash state)"
  using assms by (auto simp: paymentFromState_def paymentFlowWith_def split: if_splits)

lemma flow_from_stage:
  assumes "invoke env s c = Returns (VFlow f)"
  obtains state rs where "s = LPFBWithConversion (Inr state)"
    and "paymentFromState rs = Inr f"
    and "LPFBWithConversionState.paymentHash rs = LPFBWithConversionState.paymentHash state"
    and "LPFBWithConversionState.intraLedgerHash rs = LPFBWithConversionState.intraLedgerHash state"
proof (cases s)
  case (LPFBWithInvoice x)
  with assms show ?thesis
    by (cases c) (auto simp: notAFunction_def split: outcome.splits)
next
  case (LPFBWithSenderWallet x)
  with assms show ?thesis by (cases c) (auto simp: notAFunction_def)
next
  case (LPFBWithRecipientWallet x)
  with assms show ?thesis by (cases c) (auto simp: notAFunction_def)
next
  case (LPFBWithError e)
  with assms show ?thesis by (cases c) auto
next
  case (LPFBWithConversion p)
  show ?thesis
  proof (cases p)
    case (Inl e)
    with LPFBWithConversion assms show ?thesis
      by (cases c) (auto simp: notAFunction_def flowOrError_def boolOrError_def amountOrError_def
          LPFBWithConversion_withRoute_def LPFBWithConversion_withoutRoute_def
          LPFBWithConversion_btcPaymentAmount_def LPFBWithConversion_usdPaymentAmount_def
          LPFBWithConversion_skipProbeForDestination_def LPFBWithConversion_isIntraLedger_def
          LPFBWithConversion_isTradeIntraAccount_def)
  next
    case (Inr state)
    with LPFBWithConversion assms that [of state] show ?thesis
      by (cases c) (auto simp: notAFunction_def flowOrError_def boolOrError_def amountOrError_def
          LPFBWithConversion_withRoute_def LPFBWithConversion_withoutRoute_def
          LPFBWithConversionState.defs
          split: sum.splits)
  qed
qed

lemma run_flows:
  assumes "carries ph ih s" and "run env s cs = Returns (s', vs)" and "VFlow f \<in> set vs"
  shows "PaymentFlow.paymentHash f = (if truthy_opt_string ph then ph else None)
       \<and> PaymentFlow.intraLedgerHash f = (if truthy_opt_string ph then None else ih)"
  using assms
proof (induction cs arbitrary: s vs)
  case Nil
  then show ?case by simp
next
  case (Cons c cs)
  from Cons.prems(2) obtain v vs' where v: "invoke env s c = Returns v"
    and r: "run env (held s v) cs = Returns (s', vs')" and vs: "vs = v # vs'"
    by (auto split: outcome.splits)
  show ?case
  proof (cases "v = VFlow f")
    case True
    with v have "invoke env s c = Returns (VFlow f)" by simp
    then obtain state rs where s: "s = LPFBWithConversion (Inr state)"
      and f: "paymentFromState rs = Inr f"
      and h: "LPFBWithConversionState.paymentHash rs = LPFBWithConversionState.paymentHash state"
         "LPFBWithConversionState.intraLedgerHash rs = LPFBWithConversionState.intraLedgerHash state"
      by (rule flow_from_stage)
    from Cons.prems(1) s have "LPFBWithConversionState.paymentHash state = ph"
        "LPFBWithConversionState.intraLedgerHash state = ih"
      by (simp_all add: carries_def)
    with paymentFromState_hashes(1,2) [OF f] h show ?thesis by simp
  next
    case False
    with Cons.prems(3) vs have "VFlow f \<in> set vs'" by simp
    with invoke_carries [OF Cons.prems(1) v] r show ?thesis
      by (rule Cons.IH)
  qed
qed

lemma withoutInvoice_carries:
  "carries None (Some (generateIntraLedgerHash env)) (withoutInvoice env config unchecked descr)"
  by (simp add: withoutInvoice_def carries_def Let_def)

lemma withInvoice_carries:
  "carries (Some (LnInvoice.paymentHash invoice)) None (withInvoice env config invoice)"
  by (simp add: withInvoice_def carries_def Let_def split: option.splits)

lemma withNoAmountInvoice_carries:
  "carries (Some (LnInvoice.paymentHash invoice)) None
     (withNoAmountInvoice env config invoice unchecked)"
  by (simp add: withNoAmountInvoice_def carries_def Let_def)

section \<open>Properties of the finished flow\<close>

text \<open>
  C9 (\<^verbatim>\<open>withoutInvoice\<close>): the stage returned has settlement method and payment initiation
  method \<open>IntraLedger\<close>, \<^verbatim>\<open>skipProbeForDestination\<close> false, the freshly generated
  \<^verbatim>\<open>intraLedgerHash\<close> and no \<^verbatim>\<open>paymentHash\<close>; and every flow that any chain of calls starting
  from it returns carries that \<^verbatim>\<open>intraLedgerHash\<close> and no \<^verbatim>\<open>paymentHash\<close>.
\<close>

theorem withoutInvoice_intraledger:
  "(\<exists>st. withoutInvoice env config unchecked descr = LPFBWithInvoice st
      \<and> LPFBWithInvoiceState.settlementMethod st = IntraLedger
      \<and> LPFBWithInvoiceState.paymentInitiationMethod st = InitiatedIntraLedger
      \<and> LPFBWithInvoiceState.skipProbeForDestination st = False
      \<and> LPFBWithInvoiceState.intraLedgerHash st = Some (generateIntraLedgerHash env)
      \<and> LPFBWithInvoiceState.paymentHash st = None)
   \<and> (\<forall>cs s vs f.
        run env (withoutInvoice env config unchecked descr) cs = Returns (s, vs)
          \<and> VFlow f \<in> set vs \<longrightarrow>
        PaymentFlow.intraLedgerHash f = Some (generateIntraLedgerHash env)
          \<and> PaymentFlow.paymentHash f = None)"
proof (intro conjI allI impI)
  show "\<exists>st. withoutInvoice env config unchecked descr = LPFBWithInvoice st
      \<and> LPFBWithInvoiceState.settlementMethod st = IntraLedger
      \<and> LPFBWithInvoiceState.paymentInitiationMethod st = InitiatedIntraLedger
      \<and> LPFBWithInvoiceState.skipProbeForDestination st = False
      \<and> LPFBWithInvoiceState.intraLedgerHash st = Some (generateIntraLedgerHash env)
      \<and> LPFBWithInvoiceState.paymentHash st = None"
    by (simp add: withoutInvoice_def Let_def settlementMethodFromDestination_def)
next
  fix cs s vs f
  assume a: "run env (withoutInvoice env config unchecked descr) cs = Returns (s, vs)
               \<and> VFlow f \<in> set vs"
  then have r: "run env (withoutInvoice env config unchecked descr) cs = Returns (s, vs)"
    and m: "VFlow f \<in> set vs"
    by simp_all
  from run_flows [OF withoutInvoice_carries r m]
  show "PaymentFlow.intraLedgerHash f = Some (generateIntraLedgerHash env)"
    and "PaymentFlow.paymentHash f = None"
    by (simp_all add: truthy_opt_string_def)
qed

theorem withoutInvoice_intraledger_witness:
  "\<exists>s vs f.
      run ex_env (withoutInvoice ex_env ex_config (Finite 5000) ''memo'')
        [WithSenderWallet (ex_wallet ''w1'' Btc), WithRecipientWallet (ex_recipient ''w2'' Btc None),
         WithConversion ex_rates, WithoutRoute] = Returns (s, vs)
      \<and> VFlow f \<in> set vs
      \<and> PaymentFlow.intraLedgerHash f = Some ''intraledgerhash01''
      \<and> PaymentFlow.paymentHash f = None"
proof -
  have "\<exists>s vs f.
      run ex_env (withoutInvoice ex_env ex_config (Finite 5000) ''memo'')
        [WithSenderWallet (ex_wallet ''w1'' Btc), WithRecipientWallet (ex_recipient ''w2'' Btc None),
         WithConversion ex_rates, WithoutRoute] = Returns (s, vs)
      \<and> VFlow f \<in> set vs"
    by (simp add: builder_defs example_defs Let_def)
  then obtain s vs f where
    r: "run ex_env (withoutInvoice ex_env ex_config (Finite 5000) ''memo'')
        [WithSenderWallet (ex_wallet ''w1'' Btc), WithRecipientWallet (ex_recipient ''w2'' Btc None),
         WithConversion ex_rates, WithoutRoute] = Returns (s, vs) \<and> VFlow f \<in> set vs"
    by blast
  have g: "generateIntraLedgerHash ex_env = ''intraledgerhash01''"
    by (simp add: ex_env_def)
  from withoutInvoice_intraledger [of ex_env ex_config "Finite 5000" "''memo''"] r g
  have "PaymentFlow.intraLedgerHash f = Some ''intraledgerhash01''
      \<and> PaymentFlow.paymentHash f = None"
    by metis
  with r show ?thesis by blast
qed

lemma initial_exactly_one_hash:
  assumes "s0 = withInvoice env config invoice
         \<or> s0 = withNoAmountInvoice env config invoice unchecked
         \<or> s0 = withoutInvoice env config unchecked descr"
  obtains ph ih where "carries ph ih s0" and "(ph \<noteq> None) \<noteq> (ih \<noteq> None)"
proof -
  from assms consider "s0 = withInvoice env config invoice"
    | "s0 = withNoAmountInvoice env config invoice unchecked"
    | "s0 = withoutInvoice env config unchecked descr"
    by blast
  then show ?thesis
  proof cases
    case 1
    with withInvoice_carries that show ?thesis by blast
  next
    case 2
    with withNoAmountInvoice_carries that show ?thesis by blast
  next
    case 3
    with withoutInvoice_carries that show ?thesis by blast
  qed
qed

lemma paymentFromState_neither:
  assumes "\<not> truthy_opt_string (LPFBWithConversionState.paymentHash state)"
    and "\<not> truthy_opt_string (LPFBWithConversionState.intraLedgerHash state)"
  shows "paymentFromState state = Inl InvalidLightningPaymentFlowStateError"
  using assms by (simp add: paymentFromState_def)

lemma paymentFromState_some:
  assumes "truthy_opt_string (LPFBWithConversionState.paymentHash state)
         \<or> truthy_opt_string (LPFBWithConversionState.intraLedgerHash state)"
  shows "\<exists>f. paymentFromState state = Inr f"
  using assms by (auto simp: paymentFromState_def)

lemma withoutRoute_neither:
  assumes "\<not> truthy_opt_string (LPFBWithConversionState.paymentHash state)"
    and "\<not> truthy_opt_string (LPFBWithConversionState.intraLedgerHash state)"
  shows "invoke env (LPFBWithConversion (Inr state)) WithoutRoute
           = Returns (VError InvalidLightningPaymentFlowStateError)"
  using assms
  by (simp add: LPFBWithConversion_withoutRoute_def flowOrError_def paymentFromState_neither
      LPFBWithConversionState.defs)

lemma withRoute_neither:
  assumes "\<not> truthy_opt_string (LPFBWithConversionState.paymentHash state)"
    and "\<not> truthy_opt_string (LPFBWithConversionState.intraLedgerHash state)"
  shows "\<exists>e. invoke env (LPFBWithConversion (Inr state)) (WithRoute pk rawRoute)
           = Returns (VError e)"
  using assms
  by (simp add: LPFBWithConversion_withRoute_def flowOrError_def paymentFromState_neither
      LPFBWithConversionState.defs split: sum.splits)

lemma withoutRoute_some:
  assumes "truthy_opt_string (LPFBWithConversionState.paymentHash state)
         \<or> truthy_opt_string (LPFBWithConversionState.intraLedgerHash state)"
  shows "\<exists>f. invoke env (LPFBWithConversion (Inr state)) WithoutRoute = Returns (VFlow f)"
proof -
  from assms have "\<exists>f. paymentFromState
      (LPFBWithConversionState.extend state (LPFBWithRouteState.fields None None)) = Inr f"
    by (intro paymentFromState_some) (simp add: LPFBWithConversionState.defs)
  then show ?thesis
    by (auto simp: LPFBWithConversion_withoutRoute_def flowOrError_def)
qed

text \<open>
  C6 (terminal hash requirement): \<^verbatim>\<open>withoutRoute\<close> and \<^verbatim>\<open>withRoute\<close> on a resolved state
  return an error, not a flow, when neither \<^verbatim>\<open>paymentHash\<close> nor \<^verbatim>\<open>intraLedgerHash\<close> is present
  (for \<^verbatim>\<open>withoutRoute\<close> the invalid-flow-state error); with one present \<^verbatim>\<open>withoutRoute\<close>
  returns a flow; a flow that is returned carries exactly one of the two; and a resolved
  state reached by calls from any of the three initial operations has exactly one of the
  two fields set.
\<close>

theorem terminal_hash_requirement:
  assumes "c = WithoutRoute \<or> c = WithRoute pk rawRoute"
  shows
    "(\<not> truthy_opt_string (LPFBWithConversionState.paymentHash state)
        \<and> \<not> truthy_opt_string (LPFBWithConversionState.intraLedgerHash state) \<longrightarrow>
        (\<exists>e. invoke env (LPFBWithConversion (Inr state)) c = Returns (VError e))
        \<and> invoke env (LPFBWithConversion (Inr state)) WithoutRoute
            = Returns (VError InvalidLightningPaymentFlowStateError))
     \<and> (truthy_opt_string (LPFBWithConversionState.paymentHash state)
        \<or> truthy_opt_string (LPFBWithConversionState.intraLedgerHash state) \<longrightarrow>
        (\<exists>f. invoke env (LPFBWithConversion (Inr state)) WithoutRoute = Returns (VFlow f)))
     \<and> (\<forall>f. invoke env (LPFBWithConversion (Inr state)) c = Returns (VFlow f) \<longrightarrow>
          (truthy_opt_string (LPFBWithConversionState.paymentHash state)
            \<or> truthy_opt_string (LPFBWithConversionState.intraLedgerHash state))
          \<and> (PaymentFlow.paymentHash f \<noteq> None) \<noteq> (PaymentFlow.intraLedgerHash f \<noteq> None))
     \<and> (\<forall>s0 cs vs.
          (s0 = withInvoice env config invoice
            \<or> s0 = withNoAmountInvoice env config invoice unchecked
            \<or> s0 = withoutInvoice env config unchecked descr)
          \<and> run env s0 cs = Returns (LPFBWithConversion (Inr state), vs) \<longrightarrow>
          (LPFBWithConversionState.paymentHash state \<noteq> None)
            \<noteq> (LPFBWithConversionState.intraLedgerHash state \<noteq> None))"
proof (intro conjI allI impI)
  assume n: "\<not> truthy_opt_string (LPFBWithConversionState.paymentHash state)
        \<and> \<not> truthy_opt_string (LPFBWithConversionState.intraLedgerHash state)"
  then show "invoke env (LPFBWithConversion (Inr state)) WithoutRoute
            = Returns (VError InvalidLightningPaymentFlowStateError)"
    by (intro withoutRoute_neither) simp_all
  from assms n show "\<exists>e. invoke env (LPFBWithConversion (Inr state)) c = Returns (VError e)"
    using withoutRoute_neither [of state env] withRoute_neither [of state env pk rawRoute]
    by blast
next
  assume "truthy_opt_string (LPFBWithConversionState.paymentHash state)
        \<or> truthy_opt_string (LPFBWithConversionState.intraLedgerHash state)"
  then show "\<exists>f. invoke env (LPFBWithConversion (Inr state)) WithoutRoute = Returns (VFlow f)"
    by (rule withoutRoute_some)
next
  fix f
  assume "invoke env (LPFBWithConversion (Inr state)) c = Returns (VFlow f)"
  then obtain state' rs where s: "LPFBWithConversion (Inr state) = LPFBWithConversion (Inr state')"
    and f: "paymentFromState rs = Inr f"
    and h: "LPFBWithConversionState.paymentHash rs = LPFBWithConversionState.paymentHash state'"
       "LPFBWithConversionState.intraLedgerHash rs = LPFBWithConversionState.intraLedgerHash state'"
    by (rule flow_from_stage)
  from s have "state' = state" by simp
  with paymentFromState_hashes [OF f] h
  show "truthy_opt_string (LPFBWithConversionState.paymentHash state)
            \<or> truthy_opt_string (LPFBWithConversionState.intraLedgerHash state)"
    and "(PaymentFlow.paymentHash f \<noteq> None) \<noteq> (PaymentFlow.intraLedgerHash f \<noteq> None)"
    by (auto simp: truthy_opt_string_def split: option.splits)
next
  fix s0 cs vs
  assume a: "(s0 = withInvoice env config invoice
            \<or> s0 = withNoAmountInvoice env config invoice unchecked
            \<or> s0 = withoutInvoice env config unchecked descr)
          \<and> run env s0 cs = Returns (LPFBWithConversion (Inr state), vs)"
  then obtain ph ih where c: "carries ph ih s0" and x: "(ph \<noteq> None) \<noteq> (ih \<noteq> None)"
    using initial_exactly_one_hash by blast
  from a have "run env s0 cs = Returns (LPFBWithConversion (Inr state), vs)" by simp
  from run_carries [OF c this] x
  show "(LPFBWithConversionState.paymentHash state \<noteq> None)
            \<noteq> (LPFBWithConversionState.intraLedgerHash state \<noteq> None)"
    by (simp add: carries_def)
qed

theorem terminal_hash_requirement_witness:
  "(\<exists>st vs f.
      run ex_env (withInvoice ex_env ex_config (ex_invoice (Some ''remotenode'') (Some 10000)))
        [WithSenderWallet (ex_wallet ''w1'' Btc), WithoutRecipientWallet, WithConversion ex_rates]
        = Returns (LPFBWithConversion (Inr st), vs)
      \<and> (LPFBWithConversionState.paymentHash st \<noteq> None)
          \<noteq> (LPFBWithConversionState.intraLedgerHash st \<noteq> None)
      \<and> invoke ex_env (LPFBWithConversion (Inr st)) WithoutRoute = Returns (VFlow f)
      \<and> (PaymentFlow.paymentHash f \<noteq> None) \<noteq> (PaymentFlow.intraLedgerHash f \<noteq> None))
   \<and> invoke ex_env
        (LPFBWithConversion (Inr (withAmounts
          (ex_recipientState\<lparr> LPFBWithInvoiceState.paymentHash := None \<rparr>) 1660000000000
          \<lparr> PaymentAmount.amount = 10000, PaymentAmount.currency = Btc \<rparr>
          \<lparr> PaymentAmount.amount = 200, PaymentAmount.currency = Usd \<rparr>
          \<lparr> PaymentAmount.amount = 51, PaymentAmount.currency = Btc \<rparr>
          \<lparr> PaymentAmount.amount = 2, PaymentAmount.currency = Usd \<rparr>)))
        WithoutRoute
      = Returns (VError InvalidLightningPaymentFlowStateError)"
proof -
  have "\<exists>st vs.
      run ex_env (withInvoice ex_env ex_config (ex_invoice (Some ''remotenode'') (Some 10000)))
        [WithSenderWallet (ex_wallet ''w1'' Btc), WithoutRecipientWallet, WithConversion ex_rates]
        = Returns (LPFBWithConversion (Inr st), vs)
      \<and> truthy_opt_string (LPFBWithConversionState.paymentHash st)"
    by (simp add: builder_defs example_defs Let_def)
  then obtain st vs where
    r: "run ex_env (withInvoice ex_env ex_config (ex_invoice (Some ''remotenode'') (Some 10000)))
        [WithSenderWallet (ex_wallet ''w1'' Btc), WithoutRecipientWallet, WithConversion ex_rates]
        = Returns (LPFBWithConversion (Inr st), vs)"
    and t: "truthy_opt_string (LPFBWithConversionState.paymentHash st)"
    by blast
  note th = terminal_hash_requirement [of WithoutRoute _ _ st ex_env ex_config
      "ex_invoice (Some ''remotenode'') (Some 10000)", OF disjI1 [OF refl]]
  from th t obtain f where
    f: "invoke ex_env (LPFBWithConversion (Inr st)) WithoutRoute = Returns (VFlow f)"
    by blast
  with th have x: "(PaymentFlow.paymentHash f \<noteq> None) \<noteq> (PaymentFlow.intraLedgerHash f \<noteq> None)"
    by blast
  from th r have y: "(LPFBWithConversionState.paymentHash st \<noteq> None)
          \<noteq> (LPFBWithConversionState.intraLedgerHash st \<noteq> None)"
    by blast
  have n: "\<not> truthy_opt_string (LPFBWithConversionState.paymentHash (withAmounts
          (ex_recipientState\<lparr> LPFBWithInvoiceState.paymentHash := None \<rparr>) 1660000000000
          \<lparr> PaymentAmount.amount = 10000, PaymentAmount.currency = Btc \<rparr>
          \<lparr> PaymentAmount.amount = 200, PaymentAmount.currency = Usd \<rparr>
          \<lparr> PaymentAmount.amount = 51, PaymentAmount.currency = Btc \<rparr>
          \<lparr> PaymentAmount.amount = 2, PaymentAmount.currency = Usd \<rparr>))
      \<and> \<not> truthy_opt_string (LPFBWithConversionState.intraLedgerHash (withAmounts
          (ex_recipientState\<lparr> LPFBWithInvoiceState.paymentHash := None \<rparr>) 1660000000000
          \<lparr> PaymentAmount.amount = 10000, PaymentAmount.currency = Btc \<rparr>
          \<lparr> PaymentAmount.amount = 200, PaymentAmount.currency = Usd \<rparr>
          \<lparr> PaymentAmount.amount = 51, PaymentAmount.currency = Btc \<rparr>
          \<lparr> PaymentAmount.amount = 2, PaymentAmount.currency = Usd \<rparr>))"
    by (simp add: withAmounts_def ex_recipientState_def truthy_opt_string_def)
  from terminal_hash_requirement [of WithoutRoute _ _ _ ex_env, OF disjI1 [OF refl]] n
  have z: "invoke ex_env
        (LPFBWithConversion (Inr (withAmounts
          (ex_recipientState\<lparr> LPFBWithInvoiceState.paymentHash := None \<rparr>) 1660000000000
          \<lparr> PaymentAmount.amount = 10000, PaymentAmount.currency = Btc \<rparr>
          \<lparr> PaymentAmount.amount = 200, PaymentAmount.currency = Usd \<rparr>
          \<lparr> PaymentAmount.amount = 51, PaymentAmount.currency = Btc \<rparr>
          \<lparr> PaymentAmount.amount = 2, PaymentAmount.currency = Usd \<rparr>)))
        WithoutRoute
      = Returns (VError InvalidLightningPaymentFlowStateError)"
    by blast
  from r y f x z show ?thesis by blast
qed

end
